theory Spec2Isabelle
  imports Complex_Main "HOL-Library.Sublist"
begin

section \<open>JavaScript values\<close>

text \<open>
  The TypeScript types of the repository are erased at run time; what the code handles are
  JavaScript values. The typed part of the data model is embedded as records; the fields
  typed \<^verbatim>\<open>any\<close> or \<^verbatim>\<open>Record<string, any>\<close>, and everything that crosses the JSON boundary of the
  persistence helper, are values of \<open>jsvalue\<close>: \<^verbatim>\<open>undefined\<close>, \<^verbatim>\<open>null\<close>, the booleans, numbers
  and strings, and the arrays and plain objects made of these. An object is the list of
  its own enumerable properties in enumeration order. What else \<^verbatim>\<open>any\<close> admits (functions,
  symbols, big integers, dates and other class instances) has no counterpart here.

  A \<^verbatim>\<open>number\<close> is finite or one of the three non-finite values. A finite number is its
  numeric value, except that there are two zeros: \<open>Finite 0\<close> is \<open>+0\<close> and \<open>NegZero\<close> is
  \<open>-0\<close>, which the language keeps apart from it (\<^verbatim>\<open>Object.is(0, -0)\<close> is false).
\<close>

datatype number = Finite rat | NegZero | NaN | PosInfinity | NegInfinity

datatype jsvalue =
    Undefined
  | Null
  | Bool bool
  | Number number
  | String string
  | Array "jsvalue list"
  | Object "(string \<times> jsvalue) list"

fun isFinite :: "number \<Rightarrow> bool" where
  "isFinite (Finite q) = True"
| "isFinite NegZero = True"
| "isFinite NaN = False"
| "isFinite PosInfinity = False"
| "isFinite NegInfinity = False"

text \<open>
  \<^verbatim>\<open>JSON.stringify\<close> followed by \<^verbatim>\<open>JSON.parse\<close>, as ECMAScript defines them on these values:
  a property whose value is \<^verbatim>\<open>undefined\<close> is left out, an array element that is \<^verbatim>\<open>undefined\<close>
  becomes \<^verbatim>\<open>null\<close>, a number that is not finite becomes \<^verbatim>\<open>null\<close>, and \<open>-0\<close> is written as
  \<^verbatim>\<open>0\<close>. \<open>to_json v\<close> is the value that \<^verbatim>\<open>JSON.parse\<close> returns for the text
  \<^verbatim>\<open>JSON.stringify(v)\<close>.
\<close>

fun to_json :: "jsvalue \<Rightarrow> jsvalue"
  and to_json_elements :: "jsvalue list \<Rightarrow> jsvalue list"
  and to_json_properties :: "(string \<times> jsvalue) list \<Rightarrow> (string \<times> jsvalue) list" where
  "to_json Undefined = Undefined"
| "to_json Null = Null"
| "to_json (Bool b) = Bool b"
| "to_json (Number n) =
     (if n = NegZero then Number (Finite 0) else if isFinite n then Number n else Null)"
| "to_json (String s) = String s"
| "to_json (Array xs) = Array (to_json_elements xs)"
| "to_json (Object ps) = Object (to_json_properties ps)"
| "to_json_elements [] = []"
| "to_json_elements (x # xs) =
     (if x = Undefined then Null else to_json x) # to_json_elements xs"
| "to_json_properties [] = []"
| "to_json_properties ((k, v) # ps) =
     (if v = Undefined then to_json_properties ps else (k, to_json v) # to_json_properties ps)"

text \<open>
  The values that a text written by \<^verbatim>\<open>JSON.stringify\<close> can denote: no \<^verbatim>\<open>undefined\<close>
  anywhere, only finite numbers, and no \<open>-0\<close>.
\<close>

fun json_value :: "jsvalue \<Rightarrow> bool"
  and json_elements :: "jsvalue list \<Rightarrow> bool"
  and json_properties :: "(string \<times> jsvalue) list \<Rightarrow> bool" where
  "json_value Undefined = False"
| "json_value Null = True"
| "json_value (Bool b) = True"
| "json_value (Number n) = (isFinite n \<and> n \<noteq> NegZero)"
| "json_value (String s) = True"
| "json_value (Array xs) = json_elements xs"
| "json_value (Object ps) = json_properties ps"
| "json_elements [] = True"
| "json_elements (x # xs) = (json_value x \<and> json_elements xs)"
| "json_properties [] = True"
| "json_properties ((k, v) # ps) = (json_value v \<and> json_properties ps)"

text \<open>
  String conversion as a template literal performs it. The digits of a number are the
  platform's business (\<^verbatim>\<open>Number::toString\<close>) and are taken as a parameter.
\<close>

fun join_comma :: "string list \<Rightarrow> string" where
  "join_comma [] = []"
| "join_comma [s] = s"
| "join_comma (s # t # ss) = s @ '','' @ join_comma (t # ss)"

fun ToString :: "(number \<Rightarrow> string) \<Rightarrow> jsvalue \<Rightarrow> string"
  and ToString_elements :: "(number \<Rightarrow> string) \<Rightarrow> jsvalue list \<Rightarrow> string list" where
  "ToString nts Undefined = ''undefined''"
| "ToString nts Null = ''null''"
| "ToString nts (Bool b) = (if b then ''true'' else ''false'')"
| "ToString nts (Number n) = nts n"
| "ToString nts (String s) = s"
| "ToString nts (Array xs) = join_comma (ToString_elements nts xs)"
| "ToString nts (Object ps) = ''[object Object]''"
| "ToString_elements nts [] = []"
| "ToString_elements nts (x # xs) =
     (if x = Undefined \<or> x = Null then [] else ToString nts x) # ToString_elements nts xs"

text \<open>\<^verbatim>\<open>Date.now().toString()\<close>: the decimal digits of the milliseconds since the epoch.\<close>

definition digit :: "nat \<Rightarrow> char" where
  "digit d = ''0123456789'' ! d"

fun decimal :: "nat \<Rightarrow> string" where
  "decimal n = (if n < 10 then [digit n] else decimal (n div 10) @ [digit (n mod 10)])"

declare decimal.simps [simp del]

text \<open>
  One reading of the system clock: \<open>Date_now\<close> is what \<^verbatim>\<open>Date.now()\<close> returns and
  \<open>toISOString\<close> what \<^verbatim>\<open>new Date().toISOString()\<close> returns at that moment. The readings made
  in one synchronous block of the source are taken at the same instant.
\<close>

record instant =
  Date_now :: nat
  toISOString :: string

section \<open>Data model (\<^verbatim>\<open>types/mcp\<close>)\<close>

text \<open>
  Every interface is a record. Field names carry the interface as a prefix, since the
  interfaces share names such as \<^verbatim>\<open>id\<close>, \<^verbatim>\<open>name\<close> and \<^verbatim>\<open>type\<close>. An optional property
  (\<^verbatim>\<open>emoji?: string\<close>) has three states at run time: the object does not have the property
  (\<open>Absent\<close>), it has the property with the value \<^verbatim>\<open>undefined\<close> (\<open>Present_undefined\<close>), or the
  property holds a value (\<open>Present\<close>).
\<close>

datatype 'a optional = Absent | Present_undefined | Present 'a

datatype HttpMethod = GET | POST | PUT | DELETE | PATCH

datatype AuthType = AuthNone | AuthApiKey | AuthBearer | AuthOAuth2 | AuthBasic | AuthCustom

datatype ApiStatus = Connected | StatusError | NoKey

datatype PromptType = System | Contextual

record APIRoute =
  route_id :: string
  route_method :: HttpMethod
  route_path :: string
  route_description :: string

record Authentication =
  auth_type :: AuthType
  auth_config :: "(string \<times> jsvalue) list optional"

record APIConfig =
  api_id :: string
  api_name :: string
  api_baseUrl :: string
  api_authentication :: Authentication
  api_routes :: "APIRoute list"
  api_headers :: "(string \<times> string) list optional"
  api_timeout :: "number optional"
  api_status :: "ApiStatus optional"

record ResponseMapping =
  rm_successPath :: "string optional"
  rm_errorHandling :: "string optional"

record MCPTool =
  tool_id :: string
  tool_name :: string
  tool_displayName :: string
  tool_description :: string
  tool_apiId :: string
  tool_method :: string
  tool_endpoint :: string
  tool_inputSchema :: "(string \<times> jsvalue) list"
  tool_responseMapping :: "ResponseMapping optional"

record MCPPrompt =
  prompt_id :: string
  prompt_type :: PromptType
  prompt_content :: string

record MCPResource =
  res_id :: string
  res_name :: string
  res_type :: string
  res_uri :: string

record MCPConfiguration =
  cfg_globalPrompt :: string
  cfg_model :: string
  cfg_temperature :: number
  cfg_maxTokens :: number

record MCPIntegration =
  mcp_id :: string
  mcp_name :: string
  mcp_description :: string
  mcp_version :: string
  mcp_format :: string
  mcp_author :: string
  mcp_createdAt :: string
  mcp_updatedAt :: string
  mcp_published :: bool
  mcp_apis :: "APIConfig list"
  mcp_tools :: "MCPTool list"
  mcp_prompts :: "MCPPrompt list"
  mcp_resources :: "MCPResource list"
  mcp_configuration :: MCPConfiguration
  mcp_stars :: "number optional"
  mcp_reviews :: "number optional"
  mcp_uses :: "number optional"
  mcp_emoji :: "string optional"

record Position =
  pos_x :: number
  pos_y :: number

record NodeData =
  nd_label :: string
  nd_type :: "string optional"
  nd_details :: "jsvalue optional"

record FlowNode =
  node_id :: string
  node_type :: string
  node_position :: Position
  node_data :: NodeData

subsection \<open>Partial records and object spread\<close>

text \<open>
  \<^verbatim>\<open>Partial<T>\<close> is \<open>T\<close> with every property optional. A required property of \<open>T\<close> is an
  \<open>option\<close> here, \<open>None\<close> when the partial object does not have it; an optional property of
  \<open>T\<close> keeps its three states. (A required property present with the value \<^verbatim>\<open>undefined\<close>,
  which the type checker lets pass, is not part of this model.) The spread
  \<^verbatim>\<open>{ ...a, ...b }\<close> takes each property from \<open>b\<close> when \<open>b\<close> has it, also with the value
  \<^verbatim>\<open>undefined\<close>, and from \<open>a\<close> otherwise: \<open>override\<close> for a required property of \<open>a\<close>,
  \<open>override_opt\<close> for an optional one.
\<close>

definition override :: "'a \<Rightarrow> 'a option \<Rightarrow> 'a" where
  "override a b = (case b of None \<Rightarrow> a | Some v \<Rightarrow> v)"

definition override_opt :: "'a optional \<Rightarrow> 'a optional \<Rightarrow> 'a optional" where
  "override_opt a b = (case b of Absent \<Rightarrow> a | Present_undefined \<Rightarrow> b | Present v \<Rightarrow> b)"

record APIConfig_partial =
  p_api_id :: "string option"
  p_api_name :: "string option"
  p_api_baseUrl :: "string option"
  p_api_authentication :: "Authentication option"
  p_api_routes :: "APIRoute list option"
  p_api_headers :: "(string \<times> string) list optional"
  p_api_timeout :: "number optional"
  p_api_status :: "ApiStatus optional"

record MCPTool_partial =
  p_tool_id :: "string option"
  p_tool_name :: "string option"
  p_tool_displayName :: "string option"
  p_tool_description :: "string option"
  p_tool_apiId :: "string option"
  p_tool_method :: "string option"
  p_tool_endpoint :: "string option"
  p_tool_inputSchema :: "(string \<times> jsvalue) list option"
  p_tool_responseMapping :: "ResponseMapping optional"

record MCPPrompt_partial =
  p_prompt_id :: "string option"
  p_prompt_type :: "PromptType option"
  p_prompt_content :: "string option"

record MCPIntegration_partial =
  p_id :: "string option"
  p_name :: "string option"
  p_description :: "string option"
  p_version :: "string option"
  p_format :: "string option"
  p_author :: "string option"
  p_createdAt :: "string option"
  p_updatedAt :: "string option"
  p_published :: "bool option"
  p_apis :: "APIConfig list option"
  p_tools :: "MCPTool list option"
  p_prompts :: "MCPPrompt list option"
  p_resources :: "MCPResource list option"
  p_configuration :: "MCPConfiguration option"
  p_stars :: "number optional"
  p_reviews :: "number optional"
  p_uses :: "number optional"
  p_emoji :: "string optional"

definition spread_APIConfig :: "APIConfig \<Rightarrow> APIConfig_partial \<Rightarrow> APIConfig" where
  "spread_APIConfig api updates =
     \<lparr> api_id = override (api_id api) (p_api_id updates),
       api_name = override (api_name api) (p_api_name updates),
       api_baseUrl = override (api_baseUrl api) (p_api_baseUrl updates),
       api_authentication = override (api_authentication api) (p_api_authentication updates),
       api_routes = override (api_routes api) (p_api_routes updates),
       api_headers = override_opt (api_headers api) (p_api_headers updates),
       api_timeout = override_opt (api_timeout api) (p_api_timeout updates),
       api_status = override_opt (api_status api) (p_api_status updates) \<rparr>"

definition spread_MCPTool :: "MCPTool \<Rightarrow> MCPTool_partial \<Rightarrow> MCPTool" where
  "spread_MCPTool tool updates =
     \<lparr> tool_id = override (tool_id tool) (p_tool_id updates),
       tool_name = override (tool_name tool) (p_tool_name updates),
       tool_displayName = override (tool_displayName tool) (p_tool_displayName updates),
       tool_description = override (tool_description tool) (p_tool_description updates),
       tool_apiId = override (tool_apiId tool) (p_tool_apiId updates),
       tool_method = override (tool_method tool) (p_tool_method updates),
       tool_endpoint = override (tool_endpoint tool) (p_tool_endpoint updates),
       tool_inputSchema = override (tool_inputSchema tool) (p_tool_inputSchema updates),
       tool_responseMapping =
         override_opt (tool_responseMapping tool) (p_tool_responseMapping updates) \<rparr>"

definition spread_MCPPrompt :: "MCPPrompt \<Rightarrow> MCPPrompt_partial \<Rightarrow> MCPPrompt" where
  "spread_MCPPrompt prompt updates =
     \<lparr> prompt_id = override (prompt_id prompt) (p_prompt_id updates),
       prompt_type = override (prompt_type prompt) (p_prompt_type updates),
       prompt_content = override (prompt_content prompt) (p_prompt_content updates) \<rparr>"

definition spread_MCPIntegration ::
    "MCPIntegration \<Rightarrow> MCPIntegration_partial \<Rightarrow> MCPIntegration" where
  "spread_MCPIntegration mcp data =
     \<lparr> mcp_id = override (mcp_id mcp) (p_id data),
       mcp_name = override (mcp_name mcp) (p_name data),
       mcp_description = override (mcp_description mcp) (p_description data),
       mcp_version = override (mcp_version mcp) (p_version data),
       mcp_format = override (mcp_format mcp) (p_format data),
       mcp_author = override (mcp_author mcp) (p_author data),
       mcp_createdAt = override (mcp_createdAt mcp) (p_createdAt data),
       mcp_updatedAt = override (mcp_updatedAt mcp) (p_updatedAt data),
       mcp_published = override (mcp_published mcp) (p_published data),
       mcp_apis = override (mcp_apis mcp) (p_apis data),
       mcp_tools = override (mcp_tools mcp) (p_tools data),
       mcp_prompts = override (mcp_prompts mcp) (p_prompts data),
       mcp_resources = override (mcp_resources mcp) (p_resources data),
       mcp_configuration = override (mcp_configuration mcp) (p_configuration data),
       mcp_stars = override_opt (mcp_stars mcp) (p_stars data),
       mcp_reviews = override_opt (mcp_reviews mcp) (p_reviews data),
       mcp_uses = override_opt (mcp_uses mcp) (p_uses data),
       mcp_emoji = override_opt (mcp_emoji mcp) (p_emoji data) \<rparr>"

text \<open>The object literal \<^verbatim>\<open>{}\<close> as a partial integration, and a whole integration as one.\<close>

definition no_fields :: MCPIntegration_partial where
  "no_fields =
     \<lparr> p_id = None, p_name = None, p_description = None, p_version = None, p_format = None,
       p_author = None, p_createdAt = None, p_updatedAt = None, p_published = None,
       p_apis = None, p_tools = None, p_prompts = None, p_resources = None,
       p_configuration = None, p_stars = Absent, p_reviews = Absent, p_uses = Absent,
       p_emoji = Absent \<rparr>"

definition all_fields :: "MCPIntegration \<Rightarrow> MCPIntegration_partial" where
  "all_fields mcp =
     \<lparr> p_id = Some (mcp_id mcp), p_name = Some (mcp_name mcp),
       p_description = Some (mcp_description mcp), p_version = Some (mcp_version mcp),
       p_format = Some (mcp_format mcp), p_author = Some (mcp_author mcp),
       p_createdAt = Some (mcp_createdAt mcp), p_updatedAt = Some (mcp_updatedAt mcp),
       p_published = Some (mcp_published mcp), p_apis = Some (mcp_apis mcp),
       p_tools = Some (mcp_tools mcp), p_prompts = Some (mcp_prompts mcp),
       p_resources = Some (mcp_resources mcp),
       p_configuration = Some (mcp_configuration mcp), p_stars = mcp_stars mcp,
       p_reviews = mcp_reviews mcp, p_uses = mcp_uses mcp, p_emoji = mcp_emoji mcp \<rparr>"

section \<open>Client state store (\<^verbatim>\<open>useMCPStore\<close>)\<close>

text \<open>
  The store holds two fields. Every operation is a call of the store's \<^verbatim>\<open>set\<close>, which merges
  the given fields into the state and leaves the others as they are; here each operation
  is a function from the state before to the state after.
\<close>

record MCPStore =
  currentMCP :: "MCPIntegration option"
  selectedNode :: "FlowNode option"

definition useMCPStore :: MCPStore where
  "useMCPStore = \<lparr> currentMCP = None, selectedNode = None \<rparr>"

definition setCurrentMCP :: "MCPIntegration option \<Rightarrow> MCPStore \<Rightarrow> MCPStore" where
  "setCurrentMCP mcp state = state \<lparr> currentMCP := mcp, selectedNode := None \<rparr>"

definition updateMCP_store :: "MCPIntegration_partial \<Rightarrow> MCPStore \<Rightarrow> MCPStore" where
  "updateMCP_store updates state =
     state \<lparr> currentMCP :=
       (case currentMCP state of
          Some mcp \<Rightarrow> Some (spread_MCPIntegration mcp updates)
        | None \<Rightarrow> None) \<rparr>"

definition addAPI :: "APIConfig \<Rightarrow> MCPStore \<Rightarrow> MCPStore" where
  "addAPI api state =
     state \<lparr> currentMCP :=
       (case currentMCP state of
          Some mcp \<Rightarrow> Some (mcp \<lparr> mcp_apis := mcp_apis mcp @ [api] \<rparr>)
        | None \<Rightarrow> None) \<rparr>"

definition updateAPI :: "string \<Rightarrow> APIConfig_partial \<Rightarrow> MCPStore \<Rightarrow> MCPStore" where
  "updateAPI ident updates state =
     state \<lparr> currentMCP :=
       (case currentMCP state of
          Some mcp \<Rightarrow>
            Some (mcp \<lparr> mcp_apis :=
              map (\<lambda>api. if api_id api = ident then spread_APIConfig api updates else api)
                (mcp_apis mcp) \<rparr>)
        | None \<Rightarrow> None) \<rparr>"

definition deleteAPI :: "string \<Rightarrow> MCPStore \<Rightarrow> MCPStore" where
  "deleteAPI ident state =
     state \<lparr> currentMCP :=
       (case currentMCP state of
          Some mcp \<Rightarrow>
            Some (mcp \<lparr> mcp_apis := filter (\<lambda>api. api_id api \<noteq> ident) (mcp_apis mcp) \<rparr>)
        | None \<Rightarrow> None) \<rparr>"

definition addTool :: "MCPTool \<Rightarrow> MCPStore \<Rightarrow> MCPStore" where
  "addTool tool state =
     state \<lparr> currentMCP :=
       (case currentMCP state of
          Some mcp \<Rightarrow> Some (mcp \<lparr> mcp_tools := mcp_tools mcp @ [tool] \<rparr>)
        | None \<Rightarrow> None) \<rparr>"

definition updateTool :: "string \<Rightarrow> MCPTool_partial \<Rightarrow> MCPStore \<Rightarrow> MCPStore" where
  "updateTool ident updates state =
     state \<lparr> currentMCP :=
       (case currentMCP state of
          Some mcp \<Rightarrow>
            Some (mcp \<lparr> mcp_tools :=
              map (\<lambda>tool. if tool_id tool = ident then spread_MCPTool tool updates else tool)
                (mcp_tools mcp) \<rparr>)
        | None \<Rightarrow> None) \<rparr>"

definition deleteTool :: "string \<Rightarrow> MCPStore \<Rightarrow> MCPStore" where
  "deleteTool ident state =
     state \<lparr> currentMCP :=
       (case currentMCP state of
          Some mcp \<Rightarrow>
            Some (mcp \<lparr> mcp_tools :=
              filter (\<lambda>tool. tool_id tool \<noteq> ident) (mcp_tools mcp) \<rparr>)
        | None \<Rightarrow> None) \<rparr>"

definition addPrompt :: "MCPPrompt \<Rightarrow> MCPStore \<Rightarrow> MCPStore" where
  "addPrompt prompt state =
     state \<lparr> currentMCP :=
       (case currentMCP state of
          Some mcp \<Rightarrow> Some (mcp \<lparr> mcp_prompts := mcp_prompts mcp @ [prompt] \<rparr>)
        | None \<Rightarrow> None) \<rparr>"

definition updatePrompt :: "string \<Rightarrow> MCPPrompt_partial \<Rightarrow> MCPStore \<Rightarrow> MCPStore" where
  "updatePrompt ident updates state =
     state \<lparr> currentMCP :=
       (case currentMCP state of
          Some mcp \<Rightarrow>
            Some (mcp \<lparr> mcp_prompts :=
              map (\<lambda>prompt.
                     if prompt_id prompt = ident then spread_MCPPrompt prompt updates
                     else prompt)
                (mcp_prompts mcp) \<rparr>)
        | None \<Rightarrow> None) \<rparr>"

definition deletePrompt :: "string \<Rightarrow> MCPStore \<Rightarrow> MCPStore" where
  "deletePrompt ident state =
     state \<lparr> currentMCP :=
       (case currentMCP state of
          Some mcp \<Rightarrow>
            Some (mcp \<lparr> mcp_prompts :=
              filter (\<lambda>prompt. prompt_id prompt \<noteq> ident) (mcp_prompts mcp) \<rparr>)
        | None \<Rightarrow> None) \<rparr>"

definition selectNode :: "FlowNode option \<Rightarrow> MCPStore \<Rightarrow> MCPStore" where
  "selectNode node state = state \<lparr> selectedNode := node \<rparr>"

subsection \<open>Sequences of operations on one child collection\<close>

text \<open>
  A call of one of the nine child operations, as data, so that a sequence of calls is a
  list. \<open>run_api_ops\<close> makes the calls from left to right.
\<close>

datatype api_op = AddAPI APIConfig | UpdateAPI string APIConfig_partial | DeleteAPI string

datatype tool_op = AddTool MCPTool | UpdateTool string MCPTool_partial | DeleteTool string

datatype prompt_op =
  AddPrompt MCPPrompt | UpdatePrompt string MCPPrompt_partial | DeletePrompt string

fun api_call :: "api_op \<Rightarrow> MCPStore \<Rightarrow> MCPStore" where
  "api_call (AddAPI api) = addAPI api"
| "api_call (UpdateAPI ident updates) = updateAPI ident updates"
| "api_call (DeleteAPI ident) = deleteAPI ident"

fun tool_call :: "tool_op \<Rightarrow> MCPStore \<Rightarrow> MCPStore" where
  "tool_call (AddTool tool) = addTool tool"
| "tool_call (UpdateTool ident updates) = updateTool ident updates"
| "tool_call (DeleteTool ident) = deleteTool ident"

fun prompt_call :: "prompt_op \<Rightarrow> MCPStore \<Rightarrow> MCPStore" where
  "prompt_call (AddPrompt prompt) = addPrompt prompt"
| "prompt_call (UpdatePrompt ident updates) = updatePrompt ident updates"
| "prompt_call (DeletePrompt ident) = deletePrompt ident"

definition run_api_ops :: "api_op list \<Rightarrow> MCPStore \<Rightarrow> MCPStore" where
  "run_api_ops ops state = fold api_call ops state"

definition run_tool_ops :: "tool_op list \<Rightarrow> MCPStore \<Rightarrow> MCPStore" where
  "run_tool_ops ops state = fold tool_call ops state"

definition run_prompt_ops :: "prompt_op list \<Rightarrow> MCPStore \<Rightarrow> MCPStore" where
  "run_prompt_ops ops state = fold prompt_call ops state"

text \<open>
  What the specification expects of the identifiers, in its own words: add appends, update
  replaces the element in place (the identifiers stay), delete filters the identifier out.
  An operation is seen through the identifier it names.
\<close>

datatype id_op = IdAdd string | IdUpdate string | IdDelete string

fun expected_step :: "id_op \<Rightarrow> string list \<Rightarrow> string list" where
  "expected_step (IdAdd i) ids = ids @ [i]"
| "expected_step (IdUpdate i) ids = ids"
| "expected_step (IdDelete i) ids = filter (\<lambda>j. j \<noteq> i) ids"

definition expected_ids :: "id_op list \<Rightarrow> string list \<Rightarrow> string list" where
  "expected_ids ops ids = fold expected_step ops ids"

fun api_id_op :: "api_op \<Rightarrow> id_op" where
  "api_id_op (AddAPI api) = IdAdd (api_id api)"
| "api_id_op (UpdateAPI ident updates) = IdUpdate ident"
| "api_id_op (DeleteAPI ident) = IdDelete ident"

fun tool_id_op :: "tool_op \<Rightarrow> id_op" where
  "tool_id_op (AddTool tool) = IdAdd (tool_id tool)"
| "tool_id_op (UpdateTool ident updates) = IdUpdate ident"
| "tool_id_op (DeleteTool ident) = IdDelete ident"

fun prompt_id_op :: "prompt_op \<Rightarrow> id_op" where
  "prompt_id_op (AddPrompt prompt) = IdAdd (prompt_id prompt)"
| "prompt_id_op (UpdatePrompt ident updates) = IdUpdate ident"
| "prompt_id_op (DeletePrompt ident) = IdDelete ident"

text \<open>
  The identifiers that some update or delete of the sequence names, and the elements that
  its adds bring, in order.
\<close>

fun targeted :: "id_op list \<Rightarrow> string list" where
  "targeted [] = []"
| "targeted (IdAdd i # ops) = targeted ops"
| "targeted (IdUpdate i # ops) = i # targeted ops"
| "targeted (IdDelete i # ops) = i # targeted ops"

fun added_apis :: "api_op list \<Rightarrow> APIConfig list" where
  "added_apis [] = []"
| "added_apis (AddAPI api # ops) = api # added_apis ops"
| "added_apis (UpdateAPI ident updates # ops) = added_apis ops"
| "added_apis (DeleteAPI ident # ops) = added_apis ops"

fun added_tools :: "tool_op list \<Rightarrow> MCPTool list" where
  "added_tools [] = []"
| "added_tools (AddTool tool # ops) = tool # added_tools ops"
| "added_tools (UpdateTool ident updates # ops) = added_tools ops"
| "added_tools (DeleteTool ident # ops) = added_tools ops"

fun added_prompts :: "prompt_op list \<Rightarrow> MCPPrompt list" where
  "added_prompts [] = []"
| "added_prompts (AddPrompt prompt # ops) = prompt # added_prompts ops"
| "added_prompts (UpdatePrompt ident updates # ops) = added_prompts ops"
| "added_prompts (DeletePrompt ident # ops) = added_prompts ops"

text \<open>
  Two conditions on a sequence of calls. \<open>adds_fresh\<close>: every add brings an identifier that
  the collection does not hold at that moment. \<open>api_keeps_id\<close> and its two siblings: the
  partial record of an update has no \<^verbatim>\<open>id\<close> property, or has the identifier that the update
  is applied to.
\<close>

fun adds_fresh :: "id_op list \<Rightarrow> string list \<Rightarrow> bool" where
  "adds_fresh [] ids = True"
| "adds_fresh (IdAdd i # ops) ids = (i \<notin> set ids \<and> adds_fresh ops (ids @ [i]))"
| "adds_fresh (IdUpdate i # ops) ids = adds_fresh ops ids"
| "adds_fresh (IdDelete i # ops) ids = adds_fresh ops (filter (\<lambda>j. j \<noteq> i) ids)"

definition same_id :: "string \<Rightarrow> string option \<Rightarrow> bool" where
  "same_id ident new = (case new of None \<Rightarrow> True | Some i \<Rightarrow> i = ident)"

fun api_keeps_id :: "api_op \<Rightarrow> bool" where
  "api_keeps_id (AddAPI api) = True"
| "api_keeps_id (UpdateAPI ident updates) = same_id ident (p_api_id updates)"
| "api_keeps_id (DeleteAPI ident) = True"

fun tool_keeps_id :: "tool_op \<Rightarrow> bool" where
  "tool_keeps_id (AddTool tool) = True"
| "tool_keeps_id (UpdateTool ident updates) = same_id ident (p_tool_id updates)"
| "tool_keeps_id (DeleteTool ident) = True"

fun prompt_keeps_id :: "prompt_op \<Rightarrow> bool" where
  "prompt_keeps_id (AddPrompt prompt) = True"
| "prompt_keeps_id (UpdatePrompt ident updates) = same_id ident (p_prompt_id updates)"
| "prompt_keeps_id (DeletePrompt ident) = True"

section \<open>Mock API client (\<^verbatim>\<open>apiClient\<close>)\<close>

text \<open>
  The module-level array \<^verbatim>\<open>mockMCPs\<close> is the state of the client. Each operation takes the
  array as it is when the operation's synchronous part runs (after its \<^verbatim>\<open>await\<close> of the
  artificial delay) and returns its result together with the array afterwards. A rejected
  promise is \<open>Inl\<close> of the error, a fulfilled one \<open>Inr\<close> of the value. Strings are byte
  strings here; the emoji of the seed data are their UTF-8 bytes.
\<close>

definition mockMCPs :: "MCPIntegration list" where
  "mockMCPs =
     [ \<lparr> mcp_id = ''1'', mcp_name = ''Stripe Payment Gateway'',
         mcp_description = ''Process payments, manage subscriptions, and handle refunds'',
         mcp_version = ''1.0.0'', mcp_format = ''mcp'', mcp_author = ''@johndoe'',
         mcp_createdAt = ''2024-01-15'', mcp_updatedAt = ''2024-01-20'',
         mcp_published = True, mcp_apis = [], mcp_tools = [], mcp_prompts = [],
         mcp_resources = [],
         mcp_configuration =
           \<lparr> cfg_globalPrompt = ''You are a payment processing assistant.'',
             cfg_model = ''gpt-4'', cfg_temperature = Finite (7 / 10),
             cfg_maxTokens = Finite 1000 \<rparr>,
         mcp_stars = Present (Finite (48 / 10)), mcp_reviews = Present (Finite 124),
         mcp_uses = Present (Finite 2300),
         mcp_emoji = Present [CHR 0xF0, CHR 0x9F, CHR 0x92, CHR 0xB3] \<rparr>,
       \<lparr> mcp_id = ''2'', mcp_name = ''Weather API'',
         mcp_description = ''Get real-time weather data and forecasts for any location'',
         mcp_version = ''1.2.0'', mcp_format = ''mcp'', mcp_author = ''@weatherdev'',
         mcp_createdAt = ''2024-01-10'', mcp_updatedAt = ''2024-01-18'',
         mcp_published = True, mcp_apis = [], mcp_tools = [], mcp_prompts = [],
         mcp_resources = [],
         mcp_configuration =
           \<lparr> cfg_globalPrompt = ''You are a weather information assistant.'',
             cfg_model = ''gpt-4'', cfg_temperature = Finite (5 / 10),
             cfg_maxTokens = Finite 800 \<rparr>,
         mcp_stars = Present (Finite (46 / 10)), mcp_reviews = Present (Finite 89),
         mcp_uses = Present (Finite 1800),
         mcp_emoji =
           Present [CHR 0xF0, CHR 0x9F, CHR 0x8C, CHR 0xA4, CHR 0xEF, CHR 0xB8, CHR 0x8F] \<rparr>,
       \<lparr> mcp_id = ''3'', mcp_name = ''GitHub Integration'',
         mcp_description = ''Manage repositories, issues, and pull requests'',
         mcp_version = ''2.0.0'', mcp_format = ''mcp'', mcp_author = ''@devtools'',
         mcp_createdAt = ''2024-01-05'', mcp_updatedAt = ''2024-01-22'',
         mcp_published = True, mcp_apis = [], mcp_tools = [], mcp_prompts = [],
         mcp_resources = [],
         mcp_configuration =
           \<lparr> cfg_globalPrompt = ''You are a GitHub assistant.'',
             cfg_model = ''gpt-4-turbo'', cfg_temperature = Finite (6 / 10),
             cfg_maxTokens = Finite 1200 \<rparr>,
         mcp_stars = Present (Finite (49 / 10)), mcp_reviews = Present (Finite 156),
         mcp_uses = Present (Finite 3200),
         mcp_emoji = Present [CHR 0xF0, CHR 0x9F, CHR 0x90, CHR 0x99] \<rparr> ]"

datatype error = MCP_not_found

definition getMCPs :: "MCPIntegration list \<Rightarrow> MCPIntegration list" where
  "getMCPs db = db"

text \<open>
  \<^verbatim>\<open>mockMCPs.find(...) || null\<close>: the first element with the identifier, \<open>None\<close> for
  \<^verbatim>\<open>null\<close>. \<^verbatim>\<open>findIndex\<close> returns the position of that element, \<open>None\<close> for \<open>-1\<close>.
\<close>

definition getMCP :: "string \<Rightarrow> MCPIntegration list \<Rightarrow> MCPIntegration option" where
  "getMCP ident db = find (\<lambda>mcp. mcp_id mcp = ident) db"

fun findIndex :: "('a \<Rightarrow> bool) \<Rightarrow> 'a list \<Rightarrow> nat option" where
  "findIndex P [] = None"
| "findIndex P (x # xs) = (if P x then Some 0 else map_option Suc (findIndex P xs))"

text \<open>\<^verbatim>\<open>data.name || 'New MCP'\<close>: the default replaces a missing or an empty string.\<close>

definition or_default :: "string option \<Rightarrow> string \<Rightarrow> string" where
  "or_default v d = (case v of None \<Rightarrow> d | Some s \<Rightarrow> if s = [] then d else s)"

definition createMCP ::
    "instant \<Rightarrow> MCPIntegration_partial \<Rightarrow> MCPIntegration list
      \<Rightarrow> MCPIntegration \<times> MCPIntegration list" where
  "createMCP t data db =
     (let newMCP =
        spread_MCPIntegration
          \<lparr> mcp_id = decimal (Date_now t),
            mcp_name = or_default (p_name data) ''New MCP'',
            mcp_description = or_default (p_description data) [],
            mcp_version = ''1.0.0'',
            mcp_format = ''mcp'',
            mcp_author = ''@currentuser'',
            mcp_createdAt = toISOString t,
            mcp_updatedAt = toISOString t,
            mcp_published = False,
            mcp_apis = [],
            mcp_tools = [],
            mcp_prompts = [],
            mcp_resources = [],
            mcp_configuration =
              \<lparr> cfg_globalPrompt = [], cfg_model = ''gpt-4'',
                cfg_temperature = Finite (7 / 10), cfg_maxTokens = Finite 1000 \<rparr>,
            mcp_stars = Absent, mcp_reviews = Absent, mcp_uses = Absent, mcp_emoji = Absent \<rparr>
          data
      in (newMCP, db @ [newMCP]))"

definition updateMCP ::
    "instant \<Rightarrow> string \<Rightarrow> MCPIntegration_partial \<Rightarrow> MCPIntegration list
      \<Rightarrow> (error + MCPIntegration) \<times> MCPIntegration list" where
  "updateMCP t ident data db =
     (case findIndex (\<lambda>mcp. mcp_id mcp = ident) db of
        Some index \<Rightarrow>
          (let updated =
             (spread_MCPIntegration (db ! index) data) \<lparr> mcp_updatedAt := toISOString t \<rparr>
           in (Inr updated, db [index := updated]))
      | None \<Rightarrow> (Inl MCP_not_found, db))"

definition deleteMCP ::
    "string \<Rightarrow> MCPIntegration list \<Rightarrow> (error + unit) \<times> MCPIntegration list" where
  "deleteMCP ident db =
     (case findIndex (\<lambda>mcp. mcp_id mcp = ident) db of
        Some index \<Rightarrow> (Inr (), take index db @ drop (Suc index) db)
      | None \<Rightarrow> (Inr (), db))"

definition publishMCP ::
    "instant \<Rightarrow> string \<Rightarrow> MCPIntegration list
      \<Rightarrow> (error + MCPIntegration) \<times> MCPIntegration list" where
  "publishMCP t ident db = updateMCP t ident (no_fields \<lparr> p_published := Some True \<rparr>) db"

text \<open>
  \<^verbatim>\<open>forkMCP\<close> reads the clock itself (\<open>t\<close>) for the new identifier and then calls
  \<^verbatim>\<open>createMCP\<close>, which reads it again (\<open>t'\<close>) after its own delay. No other call on the
  client is taken to run between the two.
\<close>

definition forkMCP ::
    "instant \<Rightarrow> instant \<Rightarrow> string \<Rightarrow> MCPIntegration list
      \<Rightarrow> (error + MCPIntegration) \<times> MCPIntegration list" where
  "forkMCP t t' ident db =
     (case getMCP ident db of
        None \<Rightarrow> (Inl MCP_not_found, db)
      | Some original \<Rightarrow>
          (let (newMCP, db') =
             createMCP t'
               ((all_fields original)
                  \<lparr> p_id := Some (decimal (Date_now t)),
                    p_name := Some (mcp_name original @ '' (Fork)''),
                    p_published := Some False,
                    p_author := Some ''@currentuser'' \<rparr>)
               db
           in (Inr newMCP, db')))"

section \<open>Local persistence helper (\<^verbatim>\<open>mockStorage\<close>)\<close>

subsection \<open>Integrations as JavaScript objects\<close>

text \<open>
  \<^verbatim>\<open>JSON.stringify(mcp)\<close> sees the integration as the object it is at run time: one
  property for every required field; for an optional field no property when it is absent,
  and the property with the value \<^verbatim>\<open>undefined\<close> when it is present without a value.
\<close>

definition js_opt ::
    "string \<Rightarrow> ('a \<Rightarrow> jsvalue) \<Rightarrow> 'a optional \<Rightarrow> (string \<times> jsvalue) list" where
  "js_opt k f v =
     (case v of Absent \<Rightarrow> [] | Present_undefined \<Rightarrow> [(k, Undefined)] | Present x \<Rightarrow> [(k, f x)])"

fun HttpMethod_js :: "HttpMethod \<Rightarrow> string" where
  "HttpMethod_js GET = ''GET''"
| "HttpMethod_js POST = ''POST''"
| "HttpMethod_js PUT = ''PUT''"
| "HttpMethod_js DELETE = ''DELETE''"
| "HttpMethod_js PATCH = ''PATCH''"

fun AuthType_js :: "AuthType \<Rightarrow> string" where
  "AuthType_js AuthNone = ''none''"
| "AuthType_js AuthApiKey = ''api-key''"
| "AuthType_js AuthBearer = ''bearer''"
| "AuthType_js AuthOAuth2 = ''oauth2''"
| "AuthType_js AuthBasic = ''basic''"
| "AuthType_js AuthCustom = ''custom''"

fun ApiStatus_js :: "ApiStatus \<Rightarrow> string" where
  "ApiStatus_js Connected = ''connected''"
| "ApiStatus_js StatusError = ''error''"
| "ApiStatus_js NoKey = ''no-key''"

fun PromptType_js :: "PromptType \<Rightarrow> string" where
  "PromptType_js System = ''system''"
| "PromptType_js Contextual = ''contextual''"

definition js_of_APIRoute :: "APIRoute \<Rightarrow> jsvalue" where
  "js_of_APIRoute r =
     Object [(''id'', String (route_id r)),
             (''method'', String (HttpMethod_js (route_method r))),
             (''path'', String (route_path r)),
             (''description'', String (route_description r))]"

definition js_of_Authentication :: "Authentication \<Rightarrow> jsvalue" where
  "js_of_Authentication a =
     Object ((''type'', String (AuthType_js (auth_type a))) # js_opt ''config'' Object (auth_config a))"

definition js_of_headers :: "(string \<times> string) list \<Rightarrow> jsvalue" where
  "js_of_headers hs = Object (map (\<lambda>(k, v). (k, String v)) hs)"

definition js_of_APIConfig :: "APIConfig \<Rightarrow> jsvalue" where
  "js_of_APIConfig api =
     Object ([(''id'', String (api_id api)),
              (''name'', String (api_name api)),
              (''baseUrl'', String (api_baseUrl api)),
              (''authentication'', js_of_Authentication (api_authentication api)),
              (''routes'', Array (map js_of_APIRoute (api_routes api)))]
             @ js_opt ''headers'' js_of_headers (api_headers api)
             @ js_opt ''timeout'' Number (api_timeout api)
             @ js_opt ''status'' (\<lambda>st. String (ApiStatus_js st)) (api_status api))"

definition js_of_ResponseMapping :: "ResponseMapping \<Rightarrow> jsvalue" where
  "js_of_ResponseMapping rm =
     Object (js_opt ''successPath'' String (rm_successPath rm)
             @ js_opt ''errorHandling'' String (rm_errorHandling rm))"

definition js_of_MCPTool :: "MCPTool \<Rightarrow> jsvalue" where
  "js_of_MCPTool tool =
     Object ([(''id'', String (tool_id tool)),
              (''name'', String (tool_name tool)),
              (''displayName'', String (tool_displayName tool)),
              (''description'', String (tool_description tool)),
              (''apiId'', String (tool_apiId tool)),
              (''method'', String (tool_method tool)),
              (''endpoint'', String (tool_endpoint tool)),
              (''inputSchema'', Object (tool_inputSchema tool))]
             @ js_opt ''responseMapping'' js_of_ResponseMapping (tool_responseMapping tool))"

definition js_of_MCPPrompt :: "MCPPrompt \<Rightarrow> jsvalue" where
  "js_of_MCPPrompt prompt =
     Object [(''id'', String (prompt_id prompt)),
             (''type'', String (PromptType_js (prompt_type prompt))),
             (''content'', String (prompt_content prompt))]"

definition js_of_MCPResource :: "MCPResource \<Rightarrow> jsvalue" where
  "js_of_MCPResource res =
     Object [(''id'', String (res_id res)),
             (''name'', String (res_name res)),
             (''type'', String (res_type res)),
             (''uri'', String (res_uri res))]"

definition js_of_MCPConfiguration :: "MCPConfiguration \<Rightarrow> jsvalue" where
  "js_of_MCPConfiguration cfg =
     Object [(''globalPrompt'', String (cfg_globalPrompt cfg)),
             (''model'', String (cfg_model cfg)),
             (''temperature'', Number (cfg_temperature cfg)),
             (''maxTokens'', Number (cfg_maxTokens cfg))]"

definition js_of_MCPIntegration :: "MCPIntegration \<Rightarrow> jsvalue" where
  "js_of_MCPIntegration mcp =
     Object ([(''id'', String (mcp_id mcp)),
              (''name'', String (mcp_name mcp)),
              (''description'', String (mcp_description mcp)),
              (''version'', String (mcp_version mcp)),
              (''format'', String (mcp_format mcp)),
              (''author'', String (mcp_author mcp)),
              (''createdAt'', String (mcp_createdAt mcp)),
              (''updatedAt'', String (mcp_updatedAt mcp)),
              (''published'', Bool (mcp_published mcp)),
              (''apis'', Array (map js_of_APIConfig (mcp_apis mcp))),
              (''tools'', Array (map js_of_MCPTool (mcp_tools mcp))),
              (''prompts'', Array (map js_of_MCPPrompt (mcp_prompts mcp))),
              (''resources'', Array (map js_of_MCPResource (mcp_resources mcp))),
              (''configuration'', js_of_MCPConfiguration (mcp_configuration mcp))]
             @ js_opt ''stars'' Number (mcp_stars mcp)
             @ js_opt ''reviews'' Number (mcp_reviews mcp)
             @ js_opt ''uses'' Number (mcp_uses mcp)
             @ js_opt ''emoji'' String (mcp_emoji mcp))"

subsection \<open>The browser's storage\<close>

text \<open>
  \<^verbatim>\<open>localStorage\<close> maps keys to strings. The helper writes nothing but the output of
  \<^verbatim>\<open>JSON.stringify\<close> and reads nothing except through \<^verbatim>\<open>JSON.parse\<close>, so a stored string is
  represented by what these two make of it: \<open>Stringified v\<close> is the string that
  \<^verbatim>\<open>JSON.stringify(v)\<close> returns, and \<open>Unparseable\<close> is any string on which \<^verbatim>\<open>JSON.parse\<close>
  throws. (A text with a literal \<^verbatim>\<open>-0\<close> in it, which \<^verbatim>\<open>JSON.stringify\<close> never writes, has no
  representation here.) The empty string, which the helper's tests \<^verbatim>\<open>!data\<close> and \<^verbatim>\<open>data ? ... : ...\<close> single
  out, is unparseable too, and both ways lead to the same result. Writing is taken to
  succeed: the quota error that \<^verbatim>\<open>setItem\<close> can raise is not part of this model.
\<close>

datatype stored_text = Stringified jsvalue | Unparseable

type_synonym localStorage = "string \<rightharpoonup> stored_text"

definition JSON_stringify :: "jsvalue \<Rightarrow> stored_text" where
  "JSON_stringify v = Stringified v"

text \<open>
  \<open>None\<close> is the \<^verbatim>\<open>SyntaxError\<close> of \<^verbatim>\<open>JSON.parse\<close>. \<^verbatim>\<open>JSON.stringify(undefined)\<close> is
  \<^verbatim>\<open>undefined\<close>, which \<^verbatim>\<open>setItem\<close> would store as a string that does not parse.
\<close>

fun JSON_parse :: "stored_text \<Rightarrow> jsvalue option" where
  "JSON_parse (Stringified v) = (if v = Undefined then None else Some (to_json v))"
| "JSON_parse Unparseable = None"

text \<open>
  What the helper needs of its surroundings: whether \<^verbatim>\<open>window\<close> is defined, and how the
  platform prints a number (used only when an index entry that is not a string is put
  into a key).
\<close>

record runtime =
  window_defined :: bool
  Number_toString :: "number \<Rightarrow> string"

definition MCP_STORAGE_PREFIX :: string where
  "MCP_STORAGE_PREFIX = ''mcp_''"

definition MCP_LIST_KEY :: string where
  "MCP_LIST_KEY = ''mcp_list''"

definition getMCPList :: "runtime \<Rightarrow> localStorage \<Rightarrow> jsvalue" where
  "getMCPList rt ls =
     (if \<not> window_defined rt then Array []
      else case ls MCP_LIST_KEY of
             None \<Rightarrow> Array []
           | Some data \<Rightarrow> (case JSON_parse data of Some v \<Rightarrow> v | None \<Rightarrow> Array []))"

text \<open>
  In \<^verbatim>\<open>saveMCPToStorage\<close> the index that \<^verbatim>\<open>getMCPList\<close> returns is whatever the stored text
  parses to. On an array, \<^verbatim>\<open>includes\<close> and \<^verbatim>\<open>push\<close> do what they are meant to. On a string,
  \<^verbatim>\<open>includes\<close> is the substring test and \<^verbatim>\<open>push\<close> does not exist; on anything else
  \<^verbatim>\<open>includes\<close> does not exist. The \<^verbatim>\<open>TypeError\<close> is caught, so in all these cases nothing is
  written after the record itself. The same holds for \<^verbatim>\<open>map\<close> and \<^verbatim>\<open>filter\<close> in the two
  functions further down.
\<close>

definition saveMCPToStorage :: "runtime \<Rightarrow> MCPIntegration \<Rightarrow> localStorage \<Rightarrow> localStorage" where
  "saveMCPToStorage rt mcp ls =
     (if \<not> window_defined rt then ls
      else
        let key = MCP_STORAGE_PREFIX @ mcp_id mcp;
            ls1 = ls (key \<mapsto> JSON_stringify (js_of_MCPIntegration mcp))
        in case getMCPList rt ls1 of
             Array list \<Rightarrow>
               if String (mcp_id mcp) \<in> set list then ls1
               else ls1 (MCP_LIST_KEY \<mapsto> JSON_stringify (Array (list @ [String (mcp_id mcp)])))
           | _ \<Rightarrow> ls1)"

text \<open>The result \<open>Null\<close> is the \<^verbatim>\<open>null\<close> that the source returns for "nothing".\<close>

definition loadMCPFromStorage :: "runtime \<Rightarrow> string \<Rightarrow> localStorage \<Rightarrow> jsvalue" where
  "loadMCPFromStorage rt ident ls =
     (if \<not> window_defined rt then Null
      else case ls (MCP_STORAGE_PREFIX @ ident) of
             None \<Rightarrow> Null
           | Some data \<Rightarrow> (case JSON_parse data of Some v \<Rightarrow> v | None \<Rightarrow> Null))"

definition getAllMCPs :: "runtime \<Rightarrow> localStorage \<Rightarrow> jsvalue list" where
  "getAllMCPs rt ls =
     (if \<not> window_defined rt then []
      else case getMCPList rt ls of
             Array list \<Rightarrow>
               filter (\<lambda>mcp. mcp \<noteq> Null)
                 (map (\<lambda>entry. loadMCPFromStorage rt (ToString (Number_toString rt) entry) ls)
                    list)
           | _ \<Rightarrow> [])"

definition deleteMCPFromStorage :: "runtime \<Rightarrow> string \<Rightarrow> localStorage \<Rightarrow> localStorage" where
  "deleteMCPFromStorage rt ident ls =
     (if \<not> window_defined rt then ls
      else
        let key = MCP_STORAGE_PREFIX @ ident;
            ls1 = ls (key := None)
        in case getMCPList rt ls1 of
             Array list \<Rightarrow>
               ls1 (MCP_LIST_KEY \<mapsto>
                      JSON_stringify (Array (filter (\<lambda>mcpId. mcpId \<noteq> String ident) list)))
           | _ \<Rightarrow> ls1)"

definition createNewMCP :: "instant \<Rightarrow> MCPIntegration" where
  "createNewMCP t =
     \<lparr> mcp_id = decimal (Date_now t), mcp_name = ''Untitled MCP'', mcp_description = [],
       mcp_version = ''1.0.0'', mcp_format = ''gpt-4'', mcp_author = ''Anonymous'',
       mcp_createdAt = toISOString t, mcp_updatedAt = toISOString t,
       mcp_published = False, mcp_apis = [], mcp_tools = [], mcp_prompts = [],
       mcp_resources = [],
       mcp_configuration =
         \<lparr> cfg_globalPrompt = ''You are a helpful AI assistant.'',
           cfg_model = ''gpt-3.5-turbo'', cfg_temperature = Finite (7 / 10),
           cfg_maxTokens = Finite 2000 \<rparr>,
       mcp_stars = Absent, mcp_reviews = Absent, mcp_uses = Absent, mcp_emoji = Absent \<rparr>"

text \<open>
  The entries of the index list, when the stored index is a list at all, and a sequence of
  saves made one after the other.
\<close>

definition index_entries :: "runtime \<Rightarrow> localStorage \<Rightarrow> jsvalue list" where
  "index_entries rt ls = (case getMCPList rt ls of Array list \<Rightarrow> list | _ \<Rightarrow> [])"

definition save_all :: "runtime \<Rightarrow> MCPIntegration list \<Rightarrow> localStorage \<Rightarrow> localStorage" where
  "save_all rt mcps ls = fold (saveMCPToStorage rt) mcps ls"

section \<open>Auxiliary definitions\<close>

subsection \<open>The three child collections seen as one\<close>

text \<open>
  The nine child operations of the store are three copies of the same three list
  rewritings. \<open>list_step\<close> is that rewriting for any element type, given the function that
  reads the identifier; each concrete call is an instance of it.
\<close>

datatype 'a list_op = Append 'a | Replace string "'a \<Rightarrow> 'a" | Remove string

fun list_step :: "('a \<Rightarrow> string) \<Rightarrow> 'a list_op \<Rightarrow> 'a list \<Rightarrow> 'a list" where
  "list_step key (Append a) xs = xs @ [a]"
| "list_step key (Replace i f) xs = map (\<lambda>x. if key x = i then f x else x) xs"
| "list_step key (Remove i) xs = filter (\<lambda>x. key x \<noteq> i) xs"

fun list_id_op :: "('a \<Rightarrow> string) \<Rightarrow> 'a list_op \<Rightarrow> id_op" where
  "list_id_op key (Append a) = IdAdd (key a)"
| "list_id_op key (Replace i f) = IdUpdate i"
| "list_id_op key (Remove i) = IdDelete i"

fun appended :: "'a list_op list \<Rightarrow> 'a list" where
  "appended [] = []"
| "appended (Append a # ops) = a # appended ops"
| "appended (Replace i f # ops) = appended ops"
| "appended (Remove i # ops) = appended ops"

fun keeps_key :: "('a \<Rightarrow> string) \<Rightarrow> 'a list_op \<Rightarrow> bool" where
  "keeps_key key (Append a) = True"
| "keeps_key key (Replace i f) = (\<forall>x. key x = i \<longrightarrow> key (f x) = i)"
| "keeps_key key (Remove i) = True"

fun api_list_op :: "api_op \<Rightarrow> APIConfig list_op" where
  "api_list_op (AddAPI api) = Append api"
| "api_list_op (UpdateAPI ident updates) = Replace ident (\<lambda>api. spread_APIConfig api updates)"
| "api_list_op (DeleteAPI ident) = Remove ident"

fun tool_list_op :: "tool_op \<Rightarrow> MCPTool list_op" where
  "tool_list_op (AddTool tool) = Append tool"
| "tool_list_op (UpdateTool ident updates) = Replace ident (\<lambda>tool. spread_MCPTool tool updates)"
| "tool_list_op (DeleteTool ident) = Remove ident"

fun prompt_list_op :: "prompt_op \<Rightarrow> MCPPrompt list_op" where
  "prompt_list_op (AddPrompt prompt) = Append prompt"
| "prompt_list_op (UpdatePrompt ident updates) =
     Replace ident (\<lambda>prompt. spread_MCPPrompt prompt updates)"
| "prompt_list_op (DeletePrompt ident) = Remove ident"

subsection \<open>Integrations that JSON can carry\<close>

text \<open>
  The places of an integration where something can sit that a round trip through JSON
  does not give back: the numbers (\<^verbatim>\<open>NaN\<close>, the infinities and \<open>-0\<close> are numbers), the
  optional properties (present with the value \<^verbatim>\<open>undefined\<close>), and the free-form fields typed
  \<^verbatim>\<open>Record<string, any>\<close>, the \<^verbatim>\<open>config\<close> of an authentication and the \<^verbatim>\<open>inputSchema\<close> of a
  tool. \<open>json_MCPIntegration\<close> says that none of them holds such a thing.
\<close>

definition json_number :: "number \<Rightarrow> bool" where
  "json_number n = (isFinite n \<and> n \<noteq> NegZero)"

fun json_optional :: "('a \<Rightarrow> bool) \<Rightarrow> 'a optional \<Rightarrow> bool" where
  "json_optional P Absent = True"
| "json_optional P Present_undefined = False"
| "json_optional P (Present x) = P x"

definition json_ResponseMapping :: "ResponseMapping \<Rightarrow> bool" where
  "json_ResponseMapping rm =
     (json_optional (\<lambda>s. True) (rm_successPath rm) \<and>
      json_optional (\<lambda>s. True) (rm_errorHandling rm))"

definition json_APIConfig :: "APIConfig \<Rightarrow> bool" where
  "json_APIConfig api =
     (json_optional json_properties (auth_config (api_authentication api)) \<and>
      json_optional (\<lambda>hs. True) (api_headers api) \<and>
      json_optional json_number (api_timeout api) \<and>
      json_optional (\<lambda>st. True) (api_status api))"

definition json_MCPTool :: "MCPTool \<Rightarrow> bool" where
  "json_MCPTool tool =
     (json_properties (tool_inputSchema tool) \<and>
      json_optional json_ResponseMapping (tool_responseMapping tool))"

definition json_MCPIntegration :: "MCPIntegration \<Rightarrow> bool" where
  "json_MCPIntegration mcp =
     (list_all json_APIConfig (mcp_apis mcp) \<and>
      list_all json_MCPTool (mcp_tools mcp) \<and>
      json_number (cfg_temperature (mcp_configuration mcp)) \<and>
      json_number (cfg_maxTokens (mcp_configuration mcp)) \<and>
      json_optional json_number (mcp_stars mcp) \<and>
      json_optional json_number (mcp_reviews mcp) \<and>
      json_optional json_number (mcp_uses mcp) \<and>
      json_optional (\<lambda>s. True) (mcp_emoji mcp))"

subsection \<open>Example data\<close>

text \<open>
  Two readings of the clock, 300 milliseconds apart (the delay of \<^verbatim>\<open>getMCP\<close>), and a
  browser. The example browser prints whole numbers as the platform does; no example
  prints another number.
\<close>

definition example_instant :: instant where
  "example_instant =
     \<lparr> Date_now = 1700000000000, toISOString = ''2023-11-14T22:13:20.000Z'' \<rparr>"

definition later_instant :: instant where
  "later_instant =
     \<lparr> Date_now = 1700000000300, toISOString = ''2023-11-14T22:13:20.300Z'' \<rparr>"

fun integral_toString :: "number \<Rightarrow> string" where
  "integral_toString (Finite q) =
     (if 0 \<le> q then decimal (nat \<lfloor>q\<rfloor>) else CHR ''-'' # decimal (nat \<lfloor>- q\<rfloor>))"
| "integral_toString NegZero = ''0''"
| "integral_toString NaN = ''NaN''"
| "integral_toString PosInfinity = ''Infinity''"
| "integral_toString NegInfinity = ''-Infinity''"

definition browser :: runtime where
  "browser = \<lparr> window_defined = True, Number_toString = integral_toString \<rparr>"

text \<open>Elements for the three child collections, and partial records to update them with.\<close>

definition stripe_api :: APIConfig where
  "stripe_api =
     \<lparr> api_id = ''api-1'', api_name = ''Stripe'', api_baseUrl = ''https://api.stripe.com'',
       api_authentication =
         \<lparr> auth_type = AuthBearer,
           auth_config =
             Present [(''token'', String ''sk_test''),
                      (''scopes'', Array [String ''charges'', String ''refunds''])] \<rparr>,
       api_routes =
         [\<lparr> route_id = ''r1'', route_method = POST, route_path = ''/v1/charges'',
            route_description = ''Create a charge'' \<rparr>],
       api_headers = Present [(''Accept'', ''application/json'')],
       api_timeout = Present (Finite 5000), api_status = Present Connected \<rparr>"

definition weather_api :: APIConfig where
  "weather_api =
     \<lparr> api_id = ''api-2'', api_name = ''Weather'', api_baseUrl = ''https://api.weather.test'',
       api_authentication = \<lparr> auth_type = AuthNone, auth_config = Absent \<rparr>,
       api_routes = [], api_headers = Absent, api_timeout = Absent, api_status = Absent \<rparr>"

definition github_api :: APIConfig where
  "github_api =
     \<lparr> api_id = ''api-3'', api_name = ''GitHub'', api_baseUrl = ''https://api.github.com'',
       api_authentication = \<lparr> auth_type = AuthOAuth2, auth_config = Absent \<rparr>,
       api_routes = [], api_headers = Absent, api_timeout = Absent, api_status = Present NoKey \<rparr>"

definition maps_api :: APIConfig where
  "maps_api =
     \<lparr> api_id = ''api-4'', api_name = ''Maps'', api_baseUrl = ''https://maps.test'',
       api_authentication = \<lparr> auth_type = AuthApiKey, auth_config = Absent \<rparr>,
       api_routes = [], api_headers = Absent, api_timeout = Absent, api_status = Absent \<rparr>"

definition rename_api :: APIConfig_partial where
  "rename_api =
     \<lparr> p_api_id = None, p_api_name = Some ''Stripe (live)'', p_api_baseUrl = None,
       p_api_authentication = None, p_api_routes = None, p_api_headers = Absent,
       p_api_timeout = Absent, p_api_status = Absent \<rparr>"

definition take_api_1 :: APIConfig_partial where
  "take_api_1 =
     \<lparr> p_api_id = Some ''api-1'', p_api_name = None, p_api_baseUrl = None,
       p_api_authentication = None, p_api_routes = None, p_api_headers = Absent,
       p_api_timeout = Absent, p_api_status = Absent \<rparr>"

definition charge_tool :: MCPTool where
  "charge_tool =
     \<lparr> tool_id = ''tool-1'', tool_name = ''create_charge'', tool_displayName = ''Create charge'',
       tool_description = ''Charge a card'', tool_apiId = ''api-1'', tool_method = ''POST'',
       tool_endpoint = ''/v1/charges'',
       tool_inputSchema =
         [(''type'', String ''object''),
          (''properties'',
             Object [(''amount'',
                        Object [(''type'', String ''number''), (''minimum'', Number (Finite 0))])]),
          (''required'', Array [String ''amount''])],
       tool_responseMapping =
         Present \<lparr> rm_successPath = Present ''data.id'', rm_errorHandling = Absent \<rparr> \<rparr>"

definition refund_tool :: MCPTool where
  "refund_tool =
     \<lparr> tool_id = ''tool-2'', tool_name = ''refund'', tool_displayName = ''Refund'',
       tool_description = ''Refund a charge'', tool_apiId = ''api-1'', tool_method = ''POST'',
       tool_endpoint = ''/v1/refunds'',
       tool_inputSchema = [(''type'', String ''object'')],
       tool_responseMapping = Absent \<rparr>"

definition lookup_tool :: MCPTool where
  "lookup_tool =
     \<lparr> tool_id = ''tool-3'', tool_name = ''lookup'', tool_displayName = ''Look up'',
       tool_description = ''Look up a charge'', tool_apiId = ''api-1'', tool_method = ''GET'',
       tool_endpoint = ''/v1/charges/{id}'',
       tool_inputSchema = [(''type'', String ''object'')],
       tool_responseMapping = Absent \<rparr>"

definition quote_tool :: MCPTool where
  "quote_tool =
     \<lparr> tool_id = ''tool-4'', tool_name = ''quote'', tool_displayName = ''Quote'',
       tool_description = ''Quote a price'', tool_apiId = ''api-1'', tool_method = ''GET'',
       tool_endpoint = ''/v1/prices'',
       tool_inputSchema = [(''type'', String ''object'')],
       tool_responseMapping = Absent \<rparr>"

definition describe_tool :: MCPTool_partial where
  "describe_tool =
     \<lparr> p_tool_id = None, p_tool_name = None, p_tool_displayName = None,
       p_tool_description = Some ''Charge a payment card'', p_tool_apiId = None,
       p_tool_method = None, p_tool_endpoint = None, p_tool_inputSchema = None,
       p_tool_responseMapping = Absent \<rparr>"

definition system_prompt :: MCPPrompt where
  "system_prompt =
     \<lparr> prompt_id = ''prompt-1'', prompt_type = System, prompt_content = ''Be precise.'' \<rparr>"

definition context_prompt :: MCPPrompt where
  "context_prompt =
     \<lparr> prompt_id = ''prompt-2'', prompt_type = Contextual, prompt_content = ''Use EUR.'' \<rparr>"

definition greeting_prompt :: MCPPrompt where
  "greeting_prompt =
     \<lparr> prompt_id = ''prompt-3'', prompt_type = Contextual, prompt_content = ''Say hello.'' \<rparr>"

definition closing_prompt :: MCPPrompt where
  "closing_prompt =
     \<lparr> prompt_id = ''prompt-4'', prompt_type = Contextual, prompt_content = ''Say goodbye.'' \<rparr>"

definition reword_prompt :: MCPPrompt_partial where
  "reword_prompt =
     \<lparr> p_prompt_id = None, p_prompt_type = None, p_prompt_content = Some ''Be brief.'' \<rparr>"

definition docs_resource :: MCPResource where
  "docs_resource =
     \<lparr> res_id = ''res-1'', res_name = ''API reference'', res_type = ''text/html'',
       res_uri = ''https://docs.stripe.com/api'' \<rparr>"

text \<open>
  Integrations: a fresh one from \<^verbatim>\<open>createNewMCP\<close> and the store editing it; one under
  construction, with two APIs, two tools, two prompts, a resource and optional properties,
  and the store editing that one; a second fresh one; and four that JSON does not carry
  (a temperature \<^verbatim>\<open>NaN\<close>, a temperature \<open>-0\<close>, an \<^verbatim>\<open>emoji\<close> property that is \<^verbatim>\<open>undefined\<close>, and a
  tool whose schema has \<^verbatim>\<open>undefined\<close> in an array); last, one whose identifier is \<^verbatim>\<open>list\<close>.
\<close>

definition untitled :: MCPIntegration where
  "untitled = createNewMCP example_instant"

definition editing :: MCPStore where
  "editing = setCurrentMCP (Some untitled) useMCPStore"

definition payments :: MCPIntegration where
  "payments =
     untitled
       \<lparr> mcp_id := ''1700000000002'', mcp_name := ''Payments'',
         mcp_apis := [stripe_api, weather_api],
         mcp_tools := [charge_tool, refund_tool],
         mcp_prompts := [system_prompt, context_prompt],
         mcp_resources := [docs_resource],
         mcp_stars := Present (Finite (9 / 2)),
         mcp_emoji := Present ''$'' \<rparr>"

definition building :: MCPStore where
  "building = setCurrentMCP (Some payments) useMCPStore"

definition second :: MCPIntegration where
  "second = untitled \<lparr> mcp_id := ''1700000000001'', mcp_name := ''Second'' \<rparr>"

definition overheated :: MCPIntegration where
  "overheated =
     untitled \<lparr> mcp_configuration := (mcp_configuration untitled) \<lparr> cfg_temperature := NaN \<rparr> \<rparr>"

definition frozen :: MCPIntegration where
  "frozen =
     untitled
       \<lparr> mcp_configuration := (mcp_configuration untitled) \<lparr> cfg_temperature := NegZero \<rparr> \<rparr>"

definition faceless :: MCPIntegration where
  "faceless = untitled \<lparr> mcp_emoji := Present_undefined \<rparr>"

definition sparse :: MCPIntegration where
  "sparse =
     untitled
       \<lparr> mcp_tools := [refund_tool \<lparr> tool_inputSchema := [(''enum'', Array [Undefined])] \<rparr>] \<rparr>"

definition list_named :: MCPIntegration where
  "list_named = untitled \<lparr> mcp_id := ''list'' \<rparr>"

definition stored_once :: localStorage where
  "stored_once = saveMCPToStorage browser untitled Map.empty"

text \<open>One session of calls on each child collection of the integration under construction.\<close>

definition api_session :: "api_op list" where
  "api_session =
     [AddAPI github_api, UpdateAPI ''api-1'' rename_api, AddAPI maps_api, DeleteAPI ''api-3'']"

definition tool_session :: "tool_op list" where
  "tool_session =
     [AddTool lookup_tool, UpdateTool ''tool-1'' describe_tool, DeleteTool ''tool-3'',
      AddTool quote_tool]"

definition prompt_session :: "prompt_op list" where
  "prompt_session =
     [AddPrompt greeting_prompt, UpdatePrompt ''prompt-1'' reword_prompt,
      DeletePrompt ''prompt-3'', AddPrompt closing_prompt]"

text \<open>
  Partial records for the mock client: \<^verbatim>\<open>{ name: n }\<close>, and one that brings its own
  identifier. \<open>after_create_A\<close> and \<open>after_create_own_id\<close> are the backing collection after
  one \<^verbatim>\<open>createMCP\<close> on the seed data.
\<close>

definition named :: "string \<Rightarrow> MCPIntegration_partial" where
  "named n = no_fields \<lparr> p_name := Some n \<rparr>"

definition own_id :: MCPIntegration_partial where
  "own_id = no_fields \<lparr> p_id := Some ''1700000000300'', p_name := Some ''A'' \<rparr>"

definition after_create_A :: "MCPIntegration list" where
  "after_create_A = snd (createMCP example_instant (named ''A'') mockMCPs)"

definition after_create_own_id :: "MCPIntegration list" where
  "after_create_own_id = snd (createMCP example_instant own_id mockMCPs)"

definition backdated :: MCPIntegration_partial where
  "backdated = no_fields \<lparr> p_updatedAt := Some ''1999-12-31T00:00:00.000Z'' \<rparr>"

section \<open>The client state store\<close>

subsection \<open>Selecting an integration\<close>

text \<open>
  Claim C8. Whatever the store holds and whatever is selected, after \<^verbatim>\<open>setCurrentMCP\<close> with
  any argument (an integration or \<^verbatim>\<open>null\<close>) the selected node is \<^verbatim>\<open>null\<close>, and the held
  integration is the argument.
\<close>

theorem setCurrentMCP_clears_selection:
  "selectedNode (setCurrentMCP mcp state) = None \<and> currentMCP (setCurrentMCP mcp state) = mcp"
  by (simp add: setCurrentMCP_def)

subsection \<open>List rewritings\<close>

lemma list_step_keys:
  "keeps_key key op \<Longrightarrow>
   map key (list_step key op xs) = expected_step (list_id_op key op) (map key xs)"
  by (cases op) (auto simp: filter_map comp_def)

lemma expected_step_distinct:
  "distinct ids \<Longrightarrow> adds_fresh (iop # iops) ids \<Longrightarrow>
   distinct (expected_step iop ids) \<and> adds_fresh iops (expected_step iop ids)"
  by (cases iop) auto

lemma expected_ids_distinct:
  "distinct ids \<Longrightarrow> adds_fresh iops ids \<Longrightarrow> distinct (expected_ids iops ids)"
  unfolding expected_ids_def
proof (induction iops arbitrary: ids)
  case Nil
  then show ?case by simp
next
  case (Cons iop iops)
  from expected_step_distinct [OF Cons.prems]
  have "distinct (expected_step iop ids)" and "adds_fresh iops (expected_step iop ids)"
    by simp_all
  then show ?case using Cons.IH by simp
qed

lemma fold_list_step_keys:
  "list_all (keeps_key key) ops \<Longrightarrow>
   map key (fold (list_step key) ops xs) = expected_ids (map (list_id_op key) ops) (map key xs)"
  unfolding expected_ids_def
  by (induction ops arbitrary: xs) (simp_all add: list_step_keys)

lemma targeted_step: "set (targeted iops) \<subseteq> set (targeted (iop # iops))"
  by (cases iop) auto

text \<open>
  One call leaves alone every element whose identifier no update or delete names, and an
  add puts its element behind them.
\<close>

lemma filter_untargeted_step:
  assumes "keeps_key key op"
  shows "filter (\<lambda>x. key x \<notin> set (targeted (list_id_op key op # iops))) (list_step key op xs) @
         filter (\<lambda>x. key x \<notin> set (targeted (list_id_op key op # iops))) (appended ops)
       = filter (\<lambda>x. key x \<notin> set (targeted (list_id_op key op # iops)))
           (xs @ appended (op # ops))"
proof (cases op)
  case (Append a)
  then show ?thesis by simp
next
  case (Replace i f)
  have "filter (\<lambda>x. key x \<noteq> i \<and> key x \<notin> set (targeted iops))
          (map (\<lambda>x. if key x = i then f x else x) xs)
        = filter (\<lambda>x. key x \<noteq> i \<and> key x \<notin> set (targeted iops)) xs"
    using assms Replace by (induction xs) auto
  with Replace show ?thesis by simp
next
  case (Remove i)
  then show ?thesis by (simp add: conj_commute)
qed

lemma fold_list_step_untouched:
  "list_all (keeps_key key) ops \<Longrightarrow>
   filter (\<lambda>x. key x \<notin> set (targeted (map (list_id_op key) ops))) (fold (list_step key) ops xs)
   = filter (\<lambda>x. key x \<notin> set (targeted (map (list_id_op key) ops))) (xs @ appended ops)"
proof (induction ops arbitrary: xs)
  case Nil
  then show ?case by simp
next
  case (Cons op ops)
  let ?T = "set (targeted (map (list_id_op key) (op # ops)))"
  let ?T' = "set (targeted (map (list_id_op key) ops))"
  let ?res = "fold (list_step key) ops (list_step key op xs)"
  have sub: "?T' \<subseteq> ?T"
    using targeted_step [of "map (list_id_op key) ops" "list_id_op key op"] by simp
  then have narrow: "\<And>ys. filter (\<lambda>x. key x \<notin> ?T) (filter (\<lambda>x. key x \<notin> ?T') ys)
      = filter (\<lambda>x. key x \<notin> ?T) ys"
    by (auto intro: filter_cong)
  from Cons.prems have k: "keeps_key key op" and ks: "list_all (keeps_key key) ops"
    by simp_all
  have "filter (\<lambda>x. key x \<notin> ?T) ?res
          = filter (\<lambda>x. key x \<notin> ?T) (filter (\<lambda>x. key x \<notin> ?T') ?res)"
    by (simp only: narrow)
  also have "\<dots> = filter (\<lambda>x. key x \<notin> ?T)
                     (filter (\<lambda>x. key x \<notin> ?T') (list_step key op xs @ appended ops))"
    by (simp only: Cons.IH [OF ks])
  also have "\<dots> = filter (\<lambda>x. key x \<notin> ?T) (list_step key op xs @ appended ops)"
    by (simp only: narrow)
  also have "\<dots> = filter (\<lambda>x. key x \<notin> ?T) (xs @ appended (op # ops))"
    using filter_untargeted_step [OF k, of "map (list_id_op key) ops" xs ops] by simp
  finally show ?case by simp
qed


text \<open>
  Whatever the calls are, the elements that no update or delete names stay in the
  collection, in their order.
\<close>

lemma subseq_filter_narrow: "(\<And>x. P x \<Longrightarrow> Q x) \<Longrightarrow> subseq (filter P xs) (filter Q xs)"
  by (induction xs) auto

lemma subseq_untargeted_step:
  "subseq
     (filter (\<lambda>x. key x \<notin> set (targeted (list_id_op key op # iops))) (xs @ appended (op # ops)))
     (filter (\<lambda>x. key x \<notin> set (targeted iops)) (list_step key op xs @ appended ops))"
proof (cases op)
  case (Append a)
  then show ?thesis by simp
next
  case (Replace i f)
  have "subseq (filter (\<lambda>x. key x \<noteq> i \<and> key x \<notin> set (targeted iops)) xs)
          (filter (\<lambda>x. key x \<notin> set (targeted iops)) (map (\<lambda>x. if key x = i then f x else x) xs))"
    by (induction xs) auto
  moreover have "subseq (filter (\<lambda>x. key x \<noteq> i \<and> key x \<notin> set (targeted iops)) (appended ops))
          (filter (\<lambda>x. key x \<notin> set (targeted iops)) (appended ops))"
    by (rule subseq_filter_narrow) simp
  ultimately show ?thesis using Replace by (simp add: list_emb_append_mono)
next
  case (Remove i)
  have "subseq (filter (\<lambda>x. key x \<noteq> i \<and> key x \<notin> set (targeted iops)) xs)
          (filter (\<lambda>x. key x \<notin> set (targeted iops)) (filter (\<lambda>x. key x \<noteq> i) xs))"
    by (induction xs) auto
  moreover have "subseq (filter (\<lambda>x. key x \<noteq> i \<and> key x \<notin> set (targeted iops)) (appended ops))
          (filter (\<lambda>x. key x \<notin> set (targeted iops)) (appended ops))"
    by (rule subseq_filter_narrow) simp
  ultimately show ?thesis using Remove by (simp add: list_emb_append_mono)
qed

lemma fold_list_step_subseq:
  "subseq (filter (\<lambda>x. key x \<notin> set (targeted (map (list_id_op key) ops))) (xs @ appended ops))
     (fold (list_step key) ops xs)"
proof (induction ops arbitrary: xs)
  case Nil
  then show ?case by simp
next
  case (Cons op ops)
  have "subseq
          (filter (\<lambda>x. key x \<notin> set (targeted (map (list_id_op key) (op # ops))))
             (xs @ appended (op # ops)))
          (filter (\<lambda>x. key x \<notin> set (targeted (map (list_id_op key) ops)))
             (list_step key op xs @ appended ops))"
    using subseq_untargeted_step [of key op "map (list_id_op key) ops" xs ops] by simp
  also have "subseq \<dots> (fold (list_step key) ops (list_step key op xs))"
    by (rule Cons.IH)
  finally show ?case by simp
qed

lemma collection_ops:
  "subseq (filter (\<lambda>x. key x \<notin> set (targeted (map (list_id_op key) ops))) (xs @ appended ops))
     (fold (list_step key) ops xs) \<and>
   (list_all (keeps_key key) ops \<longrightarrow>
      map key (fold (list_step key) ops xs)
        = expected_ids (map (list_id_op key) ops) (map key xs) \<and>
      filter (\<lambda>x. key x \<notin> set (targeted (map (list_id_op key) ops)))
          (fold (list_step key) ops xs)
        = filter (\<lambda>x. key x \<notin> set (targeted (map (list_id_op key) ops))) (xs @ appended ops) \<and>
      (distinct (map key xs) \<and> adds_fresh (map (list_id_op key) ops) (map key xs) \<longrightarrow>
       distinct (map key (fold (list_step key) ops xs))))"
proof (intro conjI impI)
  show "subseq
          (filter (\<lambda>x. key x \<notin> set (targeted (map (list_id_op key) ops))) (xs @ appended ops))
          (fold (list_step key) ops xs)"
    by (rule fold_list_step_subseq)
next
  assume "list_all (keeps_key key) ops"
  then show "map key (fold (list_step key) ops xs)
               = expected_ids (map (list_id_op key) ops) (map key xs)"
    by (rule fold_list_step_keys)
next
  assume "list_all (keeps_key key) ops"
  then show "filter (\<lambda>x. key x \<notin> set (targeted (map (list_id_op key) ops)))
               (fold (list_step key) ops xs)
             = filter (\<lambda>x. key x \<notin> set (targeted (map (list_id_op key) ops)))
                 (xs @ appended ops)"
    by (rule fold_list_step_untouched)
next
  assume k: "list_all (keeps_key key) ops"
    and d: "distinct (map key xs) \<and> adds_fresh (map (list_id_op key) ops) (map key xs)"
  from d have "distinct (expected_ids (map (list_id_op key) ops) (map key xs))"
    by (simp add: expected_ids_distinct)
  then show "distinct (map key (fold (list_step key) ops xs))"
    by (simp only: fold_list_step_keys [OF k])
qed

subsection \<open>The store's calls are these rewritings\<close>

lemma api_call_held:
  "currentMCP s = Some m \<Longrightarrow>
   currentMCP (api_call op s)
     = Some (m \<lparr> mcp_apis := list_step api_id (api_list_op op) (mcp_apis m) \<rparr>)"
  by (cases op) (simp_all add: addAPI_def updateAPI_def deleteAPI_def)

lemma run_api_ops_held:
  "currentMCP s = Some m \<Longrightarrow>
   currentMCP (run_api_ops ops s)
     = Some (m \<lparr> mcp_apis := fold (list_step api_id) (map api_list_op ops) (mcp_apis m) \<rparr>)"
  unfolding run_api_ops_def
proof (induction ops arbitrary: s m)
  case Nil
  then show ?case by simp
next
  case (Cons op ops)
  from api_call_held [OF Cons.prems, of op] Cons.IH show ?case by simp
qed

lemma api_views:
  "list_id_op api_id (api_list_op op) = api_id_op op"
  "api_keeps_id op \<Longrightarrow> keeps_key api_id (api_list_op op)"
  by (cases op; simp add: same_id_def spread_APIConfig_def override_def split: option.splits)+

lemma api_list_ops:
  "map (list_id_op api_id) (map api_list_op ops) = map api_id_op ops"
  "list_all api_keeps_id ops \<Longrightarrow> list_all (keeps_key api_id) (map api_list_op ops)"
  by (induction ops) (simp_all add: api_views)

lemma api_appended: "appended (map api_list_op ops) = added_apis ops"
  by (induction ops rule: added_apis.induct) simp_all

lemma tool_call_held:
  "currentMCP s = Some m \<Longrightarrow>
   currentMCP (tool_call op s)
     = Some (m \<lparr> mcp_tools := list_step tool_id (tool_list_op op) (mcp_tools m) \<rparr>)"
  by (cases op) (simp_all add: addTool_def updateTool_def deleteTool_def)

lemma run_tool_ops_held:
  "currentMCP s = Some m \<Longrightarrow>
   currentMCP (run_tool_ops ops s)
     = Some (m \<lparr> mcp_tools := fold (list_step tool_id) (map tool_list_op ops) (mcp_tools m) \<rparr>)"
  unfolding run_tool_ops_def
proof (induction ops arbitrary: s m)
  case Nil
  then show ?case by simp
next
  case (Cons op ops)
  from tool_call_held [OF Cons.prems, of op] Cons.IH show ?case by simp
qed

lemma tool_views:
  "list_id_op tool_id (tool_list_op op) = tool_id_op op"
  "tool_keeps_id op \<Longrightarrow> keeps_key tool_id (tool_list_op op)"
  by (cases op; simp add: same_id_def spread_MCPTool_def override_def split: option.splits)+

lemma tool_list_ops:
  "map (list_id_op tool_id) (map tool_list_op ops) = map tool_id_op ops"
  "list_all tool_keeps_id ops \<Longrightarrow> list_all (keeps_key tool_id) (map tool_list_op ops)"
  by (induction ops) (simp_all add: tool_views)

lemma tool_appended: "appended (map tool_list_op ops) = added_tools ops"
  by (induction ops rule: added_tools.induct) simp_all

lemma prompt_call_held:
  "currentMCP s = Some m \<Longrightarrow>
   currentMCP (prompt_call op s)
     = Some (m \<lparr> mcp_prompts := list_step prompt_id (prompt_list_op op) (mcp_prompts m) \<rparr>)"
  by (cases op) (simp_all add: addPrompt_def updatePrompt_def deletePrompt_def)

lemma run_prompt_ops_held:
  "currentMCP s = Some m \<Longrightarrow>
   currentMCP (run_prompt_ops ops s)
     = Some (m \<lparr> mcp_prompts :=
               fold (list_step prompt_id) (map prompt_list_op ops) (mcp_prompts m) \<rparr>)"
  unfolding run_prompt_ops_def
proof (induction ops arbitrary: s m)
  case Nil
  then show ?case by simp
next
  case (Cons op ops)
  from prompt_call_held [OF Cons.prems, of op] Cons.IH show ?case by simp
qed

lemma prompt_views:
  "list_id_op prompt_id (prompt_list_op op) = prompt_id_op op"
  "prompt_keeps_id op \<Longrightarrow> keeps_key prompt_id (prompt_list_op op)"
  by (cases op; simp add: same_id_def spread_MCPPrompt_def override_def split: option.splits)+

lemma prompt_list_ops:
  "map (list_id_op prompt_id) (map prompt_list_op ops) = map prompt_id_op ops"
  "list_all prompt_keeps_id ops \<Longrightarrow> list_all (keeps_key prompt_id) (map prompt_list_op ops)"
  by (induction ops) (simp_all add: prompt_views)

lemma prompt_appended: "appended (map prompt_list_op ops) = added_prompts ops"
  by (induction ops rule: added_prompts.induct) simp_all

lemma api_ops_ok:
  assumes "currentMCP state = Some mcp"
  shows "(\<exists>mcp'. currentMCP (run_api_ops ops state) = Some mcp' \<and>
           subseq (filter (\<lambda>a. api_id a \<notin> set (targeted (map api_id_op ops))) (mcp_apis mcp @ added_apis ops))
             (mcp_apis mcp') \<and>
           (list_all api_keeps_id ops \<longrightarrow>
              map api_id (mcp_apis mcp')
                = expected_ids (map api_id_op ops) (map api_id (mcp_apis mcp)) \<and>
              filter (\<lambda>a. api_id a \<notin> set (targeted (map api_id_op ops))) (mcp_apis mcp')
                = filter (\<lambda>a. api_id a \<notin> set (targeted (map api_id_op ops)))
                    (mcp_apis mcp @ added_apis ops) \<and>
              (distinct (map api_id (mcp_apis mcp)) \<and>
               adds_fresh (map api_id_op ops) (map api_id (mcp_apis mcp)) \<longrightarrow>
               distinct (map api_id (mcp_apis mcp')))))"
proof -
  let ?res = "fold (list_step api_id) (map api_list_op ops) (mcp_apis mcp)"
  define mcp' where "mcp' = mcp \<lparr> mcp_apis := ?res \<rparr>"
  have sel: "mcp_apis mcp' = ?res"
    by (simp add: mcp'_def)
  have held: "currentMCP (run_api_ops ops state) = Some mcp'"
    unfolding mcp'_def by (rule run_api_ops_held [OF assms])
  note c = collection_ops [of api_id "map api_list_op ops" "mcp_apis mcp",
      unfolded api_list_ops(1) api_appended]
  have k: "list_all (keeps_key api_id) (map api_list_op ops)" if "list_all api_keeps_id ops"
    using that by (rule api_list_ops(2))
  have "currentMCP (run_api_ops ops state) = Some mcp' \<and>
      subseq (filter (\<lambda>a. api_id a \<notin> set (targeted (map api_id_op ops))) (mcp_apis mcp @ added_apis ops)) (mcp_apis mcp') \<and>
      (list_all api_keeps_id ops \<longrightarrow>
         map api_id (mcp_apis mcp')
           = expected_ids (map api_id_op ops) (map api_id (mcp_apis mcp)) \<and>
         filter (\<lambda>a. api_id a \<notin> set (targeted (map api_id_op ops))) (mcp_apis mcp')
           = filter (\<lambda>a. api_id a \<notin> set (targeted (map api_id_op ops))) (mcp_apis mcp @ added_apis ops) \<and>
         (distinct (map api_id (mcp_apis mcp)) \<and>
          adds_fresh (map api_id_op ops) (map api_id (mcp_apis mcp)) \<longrightarrow>
          distinct (map api_id (mcp_apis mcp'))))"
    unfolding sel using held c k by blast
  then show ?thesis by (rule exI)
qed

lemma tool_ops_ok:
  assumes "currentMCP state = Some mcp"
  shows "(\<exists>mcp'. currentMCP (run_tool_ops ops state) = Some mcp' \<and>
           subseq (filter (\<lambda>a. tool_id a \<notin> set (targeted (map tool_id_op ops))) (mcp_tools mcp @ added_tools ops))
             (mcp_tools mcp') \<and>
           (list_all tool_keeps_id ops \<longrightarrow>
              map tool_id (mcp_tools mcp')
                = expected_ids (map tool_id_op ops) (map tool_id (mcp_tools mcp)) \<and>
              filter (\<lambda>a. tool_id a \<notin> set (targeted (map tool_id_op ops))) (mcp_tools mcp')
                = filter (\<lambda>a. tool_id a \<notin> set (targeted (map tool_id_op ops)))
                    (mcp_tools mcp @ added_tools ops) \<and>
              (distinct (map tool_id (mcp_tools mcp)) \<and>
               adds_fresh (map tool_id_op ops) (map tool_id (mcp_tools mcp)) \<longrightarrow>
               distinct (map tool_id (mcp_tools mcp')))))"
proof -
  let ?res = "fold (list_step tool_id) (map tool_list_op ops) (mcp_tools mcp)"
  define mcp' where "mcp' = mcp \<lparr> mcp_tools := ?res \<rparr>"
  have sel: "mcp_tools mcp' = ?res"
    by (simp add: mcp'_def)
  have held: "currentMCP (run_tool_ops ops state) = Some mcp'"
    unfolding mcp'_def by (rule run_tool_ops_held [OF assms])
  note c = collection_ops [of tool_id "map tool_list_op ops" "mcp_tools mcp",
      unfolded tool_list_ops(1) tool_appended]
  have k: "list_all (keeps_key tool_id) (map tool_list_op ops)" if "list_all tool_keeps_id ops"
    using that by (rule tool_list_ops(2))
  have "currentMCP (run_tool_ops ops state) = Some mcp' \<and>
      subseq (filter (\<lambda>a. tool_id a \<notin> set (targeted (map tool_id_op ops))) (mcp_tools mcp @ added_tools ops)) (mcp_tools mcp') \<and>
      (list_all tool_keeps_id ops \<longrightarrow>
         map tool_id (mcp_tools mcp')
           = expected_ids (map tool_id_op ops) (map tool_id (mcp_tools mcp)) \<and>
         filter (\<lambda>a. tool_id a \<notin> set (targeted (map tool_id_op ops))) (mcp_tools mcp')
           = filter (\<lambda>a. tool_id a \<notin> set (targeted (map tool_id_op ops))) (mcp_tools mcp @ added_tools ops) \<and>
         (distinct (map tool_id (mcp_tools mcp)) \<and>
          adds_fresh (map tool_id_op ops) (map tool_id (mcp_tools mcp)) \<longrightarrow>
          distinct (map tool_id (mcp_tools mcp'))))"
    unfolding sel using held c k by blast
  then show ?thesis by (rule exI)
qed

lemma prompt_ops_ok:
  assumes "currentMCP state = Some mcp"
  shows "(\<exists>mcp'. currentMCP (run_prompt_ops ops state) = Some mcp' \<and>
           subseq (filter (\<lambda>a. prompt_id a \<notin> set (targeted (map prompt_id_op ops))) (mcp_prompts mcp @ added_prompts ops))
             (mcp_prompts mcp') \<and>
           (list_all prompt_keeps_id ops \<longrightarrow>
              map prompt_id (mcp_prompts mcp')
                = expected_ids (map prompt_id_op ops) (map prompt_id (mcp_prompts mcp)) \<and>
              filter (\<lambda>a. prompt_id a \<notin> set (targeted (map prompt_id_op ops))) (mcp_prompts mcp')
                = filter (\<lambda>a. prompt_id a \<notin> set (targeted (map prompt_id_op ops)))
                    (mcp_prompts mcp @ added_prompts ops) \<and>
              (distinct (map prompt_id (mcp_prompts mcp)) \<and>
               adds_fresh (map prompt_id_op ops) (map prompt_id (mcp_prompts mcp)) \<longrightarrow>
               distinct (map prompt_id (mcp_prompts mcp')))))"
proof -
  let ?res = "fold (list_step prompt_id) (map prompt_list_op ops) (mcp_prompts mcp)"
  define mcp' where "mcp' = mcp \<lparr> mcp_prompts := ?res \<rparr>"
  have sel: "mcp_prompts mcp' = ?res"
    by (simp add: mcp'_def)
  have held: "currentMCP (run_prompt_ops ops state) = Some mcp'"
    unfolding mcp'_def by (rule run_prompt_ops_held [OF assms])
  note c = collection_ops [of prompt_id "map prompt_list_op ops" "mcp_prompts mcp",
      unfolded prompt_list_ops(1) prompt_appended]
  have k: "list_all (keeps_key prompt_id) (map prompt_list_op ops)" if "list_all prompt_keeps_id ops"
    using that by (rule prompt_list_ops(2))
  have "currentMCP (run_prompt_ops ops state) = Some mcp' \<and>
      subseq (filter (\<lambda>a. prompt_id a \<notin> set (targeted (map prompt_id_op ops))) (mcp_prompts mcp @ added_prompts ops)) (mcp_prompts mcp') \<and>
      (list_all prompt_keeps_id ops \<longrightarrow>
         map prompt_id (mcp_prompts mcp')
           = expected_ids (map prompt_id_op ops) (map prompt_id (mcp_prompts mcp)) \<and>
         filter (\<lambda>a. prompt_id a \<notin> set (targeted (map prompt_id_op ops))) (mcp_prompts mcp')
           = filter (\<lambda>a. prompt_id a \<notin> set (targeted (map prompt_id_op ops))) (mcp_prompts mcp @ added_prompts ops) \<and>
         (distinct (map prompt_id (mcp_prompts mcp)) \<and>
          adds_fresh (map prompt_id_op ops) (map prompt_id (mcp_prompts mcp)) \<longrightarrow>
          distinct (map prompt_id (mcp_prompts mcp'))))"
    unfolding sel using held c k by blast
  then show ?thesis by (rule exI)
qed

subsection \<open>Sequences of calls on a child collection\<close>

text \<open>
  Claim C1, as the specification states it, fails in three ways. \<^verbatim>\<open>addAPI\<close> appends without
  looking at the identifiers that the collection holds, so adding the same API twice leaves
  two elements with one identifier. A sequence without any add, here one delete of an
  identifier that is not there, leaves the duplicates that the collection has at its
  start. And \<^verbatim>\<open>updateAPI\<close> merges whatever the partial record brings, its \<^verbatim>\<open>id\<close> included:
  after adding two APIs with different identifiers, an update of the second with the
  partial \<^verbatim>\<open>{ id: "api-1" }\<close> leaves the identifier \<^verbatim>\<open>api-1\<close> twice, where \<^verbatim>\<open>api-1\<close> and \<^verbatim>\<open>api-2\<close>
  are expected.
\<close>

theorem child_collection_duplicates:
  "map_option (\<lambda>mcp. map api_id (mcp_apis mcp))
     (currentMCP (run_api_ops [AddAPI stripe_api, AddAPI stripe_api] editing))
     = Some [''api-1'', ''api-1''] \<and>
   \<not> distinct [''api-1'', ''api-1''] \<and>
   map_option (\<lambda>mcp. map api_id (mcp_apis mcp))
     (currentMCP
        (run_api_ops [DeleteAPI ''api-2'']
           (run_api_ops [AddAPI stripe_api, AddAPI stripe_api] editing)))
     = Some [''api-1'', ''api-1''] \<and>
   map_option (\<lambda>mcp. map api_id (mcp_apis mcp))
     (currentMCP
        (run_api_ops [AddAPI stripe_api, AddAPI weather_api, UpdateAPI ''api-2'' take_api_1]
           editing))
     = Some [''api-1'', ''api-1''] \<and>
   expected_ids
     (map api_id_op [AddAPI stripe_api, AddAPI weather_api, UpdateAPI ''api-2'' take_api_1]) []
     = [''api-1'', ''api-2'']"
  by (simp add: run_api_ops_def addAPI_def updateAPI_def deleteAPI_def editing_def
      setCurrentMCP_def useMCPStore_def untitled_def createNewMCP_def stripe_api_def
      weather_api_def take_api_1_def spread_APIConfig_def override_def override_opt_def
      expected_ids_def)

text \<open>
  Claim C1, amended. Let the store hold an integration and take any sequence of add,
  update and delete calls on one of its child collections (APIs, tools or prompts). Then
  the store still holds an integration, and in its collection

  \<^item> the initial and the added elements whose identifier no update or delete of the
    sequence names are all there, unchanged and in their original relative order (they
    are a subsequence of the result);
  \<^item> when no update changes the \<^verbatim>\<open>id\<close> property (\<open>api_keeps_id\<close>, \<open>tool_keeps_id\<close>,
    \<open>prompt_keeps_id\<close>), the identifiers are exactly the expected ones, in order: those
    held at the start with the added ones appended and the deleted ones filtered out
    (\<open>expected_ids\<close>), and the elements of the result whose identifier no update or delete
    names are exactly the ones of the first item;
  \<^item> when moreover the collection has no identifier twice at the start and every add
    brings an identifier that the collection does not hold at that moment
    (\<open>adds_fresh\<close>), no identifier occurs twice in the result.
\<close>

theorem child_collection_ops:
  assumes "currentMCP state = Some mcp"
  shows
    "(\<exists>mcp'. currentMCP (run_api_ops aops state) = Some mcp' \<and>
        subseq (filter (\<lambda>a. api_id a \<notin> set (targeted (map api_id_op aops))) (mcp_apis mcp @ added_apis aops))
          (mcp_apis mcp') \<and>
        (list_all api_keeps_id aops \<longrightarrow>
           map api_id (mcp_apis mcp')
             = expected_ids (map api_id_op aops) (map api_id (mcp_apis mcp)) \<and>
           filter (\<lambda>a. api_id a \<notin> set (targeted (map api_id_op aops))) (mcp_apis mcp')
             = filter (\<lambda>a. api_id a \<notin> set (targeted (map api_id_op aops)))
                 (mcp_apis mcp @ added_apis aops) \<and>
           (distinct (map api_id (mcp_apis mcp)) \<and>
            adds_fresh (map api_id_op aops) (map api_id (mcp_apis mcp)) \<longrightarrow>
            distinct (map api_id (mcp_apis mcp'))))) \<and>
     (\<exists>mcp'. currentMCP (run_tool_ops tops state) = Some mcp' \<and>
        subseq (filter (\<lambda>a. tool_id a \<notin> set (targeted (map tool_id_op tops))) (mcp_tools mcp @ added_tools tops))
          (mcp_tools mcp') \<and>
        (list_all tool_keeps_id tops \<longrightarrow>
           map tool_id (mcp_tools mcp')
             = expected_ids (map tool_id_op tops) (map tool_id (mcp_tools mcp)) \<and>
           filter (\<lambda>a. tool_id a \<notin> set (targeted (map tool_id_op tops))) (mcp_tools mcp')
             = filter (\<lambda>a. tool_id a \<notin> set (targeted (map tool_id_op tops)))
                 (mcp_tools mcp @ added_tools tops) \<and>
           (distinct (map tool_id (mcp_tools mcp)) \<and>
            adds_fresh (map tool_id_op tops) (map tool_id (mcp_tools mcp)) \<longrightarrow>
            distinct (map tool_id (mcp_tools mcp'))))) \<and>
     (\<exists>mcp'. currentMCP (run_prompt_ops pops state) = Some mcp' \<and>
        subseq (filter (\<lambda>a. prompt_id a \<notin> set (targeted (map prompt_id_op pops))) (mcp_prompts mcp @ added_prompts pops))
          (mcp_prompts mcp') \<and>
        (list_all prompt_keeps_id pops \<longrightarrow>
           map prompt_id (mcp_prompts mcp')
             = expected_ids (map prompt_id_op pops) (map prompt_id (mcp_prompts mcp)) \<and>
           filter (\<lambda>a. prompt_id a \<notin> set (targeted (map prompt_id_op pops))) (mcp_prompts mcp')
             = filter (\<lambda>a. prompt_id a \<notin> set (targeted (map prompt_id_op pops)))
                 (mcp_prompts mcp @ added_prompts pops) \<and>
           (distinct (map prompt_id (mcp_prompts mcp)) \<and>
            adds_fresh (map prompt_id_op pops) (map prompt_id (mcp_prompts mcp)) \<longrightarrow>
            distinct (map prompt_id (mcp_prompts mcp')))))"
  by (intro conjI api_ops_ok tool_ops_ok prompt_ops_ok assms)

text \<open>
  The amended claim C1 at work, on an integration that holds two elements in each child
  collection: a session that adds an element, updates the first element held, deletes
  the added element and adds another one. One of the elements held and the last one
  added are named by no update or delete.
\<close>

theorem child_collection_ops_witness:
  "currentMCP building = Some payments \<and>
   list_all api_keeps_id api_session \<and>
   distinct (map api_id (mcp_apis payments)) \<and>
   adds_fresh (map api_id_op api_session) (map api_id (mcp_apis payments)) \<and>
   (\<exists>mcp'. currentMCP (run_api_ops api_session building) = Some mcp' \<and>
      subseq (filter (\<lambda>a. api_id a \<notin> set (targeted (map api_id_op api_session))) (mcp_apis payments @ added_apis api_session))
        (mcp_apis mcp') \<and>
      map api_id (mcp_apis mcp')
        = expected_ids (map api_id_op api_session) (map api_id (mcp_apis payments)) \<and>
      filter (\<lambda>a. api_id a \<notin> set (targeted (map api_id_op api_session))) (mcp_apis mcp')
        = filter (\<lambda>a. api_id a \<notin> set (targeted (map api_id_op api_session)))
            (mcp_apis payments @ added_apis api_session) \<and>
      distinct (map api_id (mcp_apis mcp'))) \<and>
   list_all tool_keeps_id tool_session \<and>
   distinct (map tool_id (mcp_tools payments)) \<and>
   adds_fresh (map tool_id_op tool_session) (map tool_id (mcp_tools payments)) \<and>
   (\<exists>mcp'. currentMCP (run_tool_ops tool_session building) = Some mcp' \<and>
      subseq (filter (\<lambda>a. tool_id a \<notin> set (targeted (map tool_id_op tool_session))) (mcp_tools payments @ added_tools tool_session))
        (mcp_tools mcp') \<and>
      map tool_id (mcp_tools mcp')
        = expected_ids (map tool_id_op tool_session) (map tool_id (mcp_tools payments)) \<and>
      filter (\<lambda>a. tool_id a \<notin> set (targeted (map tool_id_op tool_session))) (mcp_tools mcp')
        = filter (\<lambda>a. tool_id a \<notin> set (targeted (map tool_id_op tool_session)))
            (mcp_tools payments @ added_tools tool_session) \<and>
      distinct (map tool_id (mcp_tools mcp'))) \<and>
   list_all prompt_keeps_id prompt_session \<and>
   distinct (map prompt_id (mcp_prompts payments)) \<and>
   adds_fresh (map prompt_id_op prompt_session) (map prompt_id (mcp_prompts payments)) \<and>
   (\<exists>mcp'. currentMCP (run_prompt_ops prompt_session building) = Some mcp' \<and>
      subseq (filter (\<lambda>a. prompt_id a \<notin> set (targeted (map prompt_id_op prompt_session))) (mcp_prompts payments @ added_prompts prompt_session))
        (mcp_prompts mcp') \<and>
      map prompt_id (mcp_prompts mcp')
        = expected_ids (map prompt_id_op prompt_session) (map prompt_id (mcp_prompts payments)) \<and>
      filter (\<lambda>a. prompt_id a \<notin> set (targeted (map prompt_id_op prompt_session))) (mcp_prompts mcp')
        = filter (\<lambda>a. prompt_id a \<notin> set (targeted (map prompt_id_op prompt_session)))
            (mcp_prompts payments @ added_prompts prompt_session) \<and>
      distinct (map prompt_id (mcp_prompts mcp')))"
proof -
  have held: "currentMCP building = Some payments"
    by (simp add: building_def setCurrentMCP_def)
  have a: "list_all api_keeps_id api_session \<and>
    distinct (map api_id (mcp_apis payments)) \<and>
    adds_fresh (map api_id_op api_session) (map api_id (mcp_apis payments))"
    by (simp add: payments_def api_session_def same_id_def rename_api_def stripe_api_def
        weather_api_def github_api_def maps_api_def)
  have t: "list_all tool_keeps_id tool_session \<and>
    distinct (map tool_id (mcp_tools payments)) \<and>
    adds_fresh (map tool_id_op tool_session) (map tool_id (mcp_tools payments))"
    by (simp add: payments_def tool_session_def same_id_def describe_tool_def charge_tool_def
        refund_tool_def lookup_tool_def quote_tool_def)
  have p: "list_all prompt_keeps_id prompt_session \<and>
    distinct (map prompt_id (mcp_prompts payments)) \<and>
    adds_fresh (map prompt_id_op prompt_session) (map prompt_id (mcp_prompts payments))"
    by (simp add: payments_def prompt_session_def same_id_def reword_prompt_def
        system_prompt_def context_prompt_def greeting_prompt_def closing_prompt_def)
  from child_collection_ops [OF held, of api_session tool_session prompt_session] held a t p
  show ?thesis by blast
qed

text \<open>
  What the session leaves of the APIs: the first one renamed, the second one and the last
  one added; the latter two are the elements that no update or delete names.
\<close>

lemma api_session_result:
  "map_option (\<lambda>mcp. map api_name (mcp_apis mcp)) (currentMCP (run_api_ops api_session building))
     = Some [''Stripe (live)'', ''Weather'', ''Maps''] \<and>
   filter (\<lambda>a. api_id a \<notin> set (targeted (map api_id_op api_session)))
     (mcp_apis payments @ added_apis api_session)
     = [weather_api, maps_api]"
  by (simp add: run_api_ops_def api_session_def addAPI_def updateAPI_def deleteAPI_def
      building_def setCurrentMCP_def useMCPStore_def payments_def stripe_api_def
      weather_api_def github_api_def maps_api_def rename_api_def spread_APIConfig_def
      override_def override_opt_def)
section \<open>The mock API client\<close>

subsection \<open>Searching the backing collection\<close>

lemma findIndex_None: "findIndex P xs = None \<longleftrightarrow> (\<forall>x \<in> set xs. \<not> P x)"
  by (induction xs) auto

lemma findIndex_Some: "findIndex P xs = Some i \<Longrightarrow> i < length xs \<and> P (xs ! i)"
  by (induction xs arbitrary: i) (auto split: if_splits)

lemma findIndex_missing:
  "ident \<notin> set (map mcp_id db) \<Longrightarrow> findIndex (\<lambda>mcp. mcp_id mcp = ident) db = None"
  by (auto simp: findIndex_None)

lemma findIndex_present:
  assumes "ident \<in> set (map mcp_id db)"
  shows "\<exists>i. findIndex (\<lambda>mcp. mcp_id mcp = ident) db = Some i \<and> i < length db \<and>
             mcp_id (db ! i) = ident"
proof -
  from assms have "findIndex (\<lambda>mcp. mcp_id mcp = ident) db \<noteq> None"
    by (auto simp: findIndex_None)
  then obtain i where "findIndex (\<lambda>mcp. mcp_id mcp = ident) db = Some i" by auto
  with findIndex_Some [OF this] show ?thesis by simp
qed

lemma getMCP_present:
  "ident \<in> set (map mcp_id db) \<Longrightarrow>
   \<exists>original. getMCP ident db = Some original \<and> mcp_id original = ident"
  unfolding getMCP_def by (induction db) auto

lemma getMCP_append_fresh:
  "ident \<notin> set (map mcp_id db) \<Longrightarrow> mcp_id new = ident \<Longrightarrow>
   getMCP ident (db @ [new]) = Some new"
  unfolding getMCP_def by (induction db) auto

lemma decimal_example: "decimal 1700000000000 = ''1700000000000''"
  by (simp add: decimal.simps digit_def)

lemma decimal_later: "decimal 1700000000300 = ''1700000000300''"
  by (simp add: decimal.simps digit_def)

subsection \<open>Create, then get\<close>

text \<open>
  Claim C3, as the specification states it, fails: the identifier is the clock's
  millisecond, and \<^verbatim>\<open>getMCP\<close> returns the first integration with the identifier. After two
  \<^verbatim>\<open>createMCP\<close> calls whose synchronous parts run in the same millisecond, the first with
  \<^verbatim>\<open>{ name: "A" }\<close> and the second with \<^verbatim>\<open>{ name: "X" }\<close>, getting the integration with the
  identifier that the second call returned yields the one named \<^verbatim>\<open>A\<close>.
\<close>

theorem create_same_millisecond:
  "mcp_id (fst (createMCP example_instant (named ''X'') after_create_A)) = ''1700000000000'' \<and>
   map_option mcp_name
     (getMCP (mcp_id (fst (createMCP example_instant (named ''X'') after_create_A)))
        (snd (createMCP example_instant (named ''X'') after_create_A)))
     = Some ''A''"
  by (simp add: after_create_A_def createMCP_def Let_def named_def no_fields_def
      spread_MCPIntegration_def override_def or_default_def example_instant_def decimal_example
      mockMCPs_def getMCP_def)

text \<open>
  Claim C3, amended. When no integration of the backing collection has the identifier that
  the clock gives (the decimal digits of \<^verbatim>\<open>Date.now()\<close>), \<^verbatim>\<open>createMCP\<close> with the partial
  \<^verbatim>\<open>{ name: "X" }\<close> followed by \<^verbatim>\<open>getMCP\<close> with the identifier of the returned integration
  yields that integration; its name is \<^verbatim>\<open>X\<close>, its version \<^verbatim>\<open>1.0.0\<close>, its four child
  collections are empty and it is not published.
\<close>

theorem create_then_getMCP:
  assumes "decimal (Date_now t) \<notin> set (map mcp_id db)"
  shows "getMCP (mcp_id (fst (createMCP t (named ''X'') db))) (snd (createMCP t (named ''X'') db))
           = Some (fst (createMCP t (named ''X'') db)) \<and>
         mcp_name (fst (createMCP t (named ''X'') db)) = ''X'' \<and>
         mcp_version (fst (createMCP t (named ''X'') db)) = ''1.0.0'' \<and>
         mcp_apis (fst (createMCP t (named ''X'') db)) = [] \<and>
         mcp_tools (fst (createMCP t (named ''X'') db)) = [] \<and>
         mcp_prompts (fst (createMCP t (named ''X'') db)) = [] \<and>
         mcp_resources (fst (createMCP t (named ''X'') db)) = [] \<and>
         \<not> mcp_published (fst (createMCP t (named ''X'') db))"
proof -
  let ?new = "fst (createMCP t (named ''X'') db)"
  have fields: "mcp_id ?new = decimal (Date_now t)" "mcp_name ?new = ''X''"
    "mcp_version ?new = ''1.0.0''" "mcp_apis ?new = []" "mcp_tools ?new = []"
    "mcp_prompts ?new = []" "mcp_resources ?new = []" "\<not> mcp_published ?new"
    by (simp_all add: createMCP_def Let_def named_def no_fields_def spread_MCPIntegration_def
        override_def)
  have db': "snd (createMCP t (named ''X'') db) = db @ [?new]"
    by (simp add: createMCP_def Let_def)
  have "getMCP (mcp_id ?new) (db @ [?new]) = Some ?new"
    using assms fields(1) by (intro getMCP_append_fresh) simp_all
  with fields db' show ?thesis by simp
qed

text \<open>The amended claim C3 on the seed data, whose identifiers are 1, 2 and 3.\<close>

theorem create_then_getMCP_witness:
  "decimal (Date_now example_instant) \<notin> set (map mcp_id mockMCPs) \<and>
   getMCP (mcp_id (fst (createMCP example_instant (named ''X'') mockMCPs)))
       (snd (createMCP example_instant (named ''X'') mockMCPs))
     = Some (fst (createMCP example_instant (named ''X'') mockMCPs)) \<and>
   mcp_name (fst (createMCP example_instant (named ''X'') mockMCPs)) = ''X'' \<and>
   mcp_version (fst (createMCP example_instant (named ''X'') mockMCPs)) = ''1.0.0'' \<and>
   mcp_apis (fst (createMCP example_instant (named ''X'') mockMCPs)) = [] \<and>
   mcp_tools (fst (createMCP example_instant (named ''X'') mockMCPs)) = [] \<and>
   mcp_prompts (fst (createMCP example_instant (named ''X'') mockMCPs)) = [] \<and>
   mcp_resources (fst (createMCP example_instant (named ''X'') mockMCPs)) = [] \<and>
   \<not> mcp_published (fst (createMCP example_instant (named ''X'') mockMCPs))"
proof -
  have h: "decimal (Date_now example_instant) \<notin> set (map mcp_id mockMCPs)"
    by (simp add: example_instant_def decimal_example mockMCPs_def)
  from h create_then_getMCP [OF h] show ?thesis by simp
qed

subsection \<open>Fork\<close>

text \<open>
  Claim C4, as the specification states it, fails: the new identifier is the clock's
  millisecond when \<^verbatim>\<open>forkMCP\<close> runs, whatever the original's identifier is. An integration
  created with the caller's own identifier \<^verbatim>\<open>1700000000300\<close> and forked at that very
  millisecond yields a fork with the original's identifier.
\<close>

theorem fork_same_identifier:
  "map_option mcp_id (getMCP ''1700000000300'' after_create_own_id) = Some ''1700000000300'' \<and>
   map_sum id mcp_id
     (fst (forkMCP later_instant later_instant ''1700000000300'' after_create_own_id))
     = Inr ''1700000000300''"
  by (simp add: after_create_own_id_def own_id_def createMCP_def forkMCP_def Let_def no_fields_def
      all_fields_def spread_MCPIntegration_def override_def override_opt_def or_default_def
      example_instant_def later_instant_def decimal_example decimal_later mockMCPs_def getMCP_def)

text \<open>
  Claim C4, amended. For every identifier present in the backing collection that is not
  the decimal rendering of the clock at the moment \<^verbatim>\<open>forkMCP\<close> reads it, \<^verbatim>\<open>forkMCP\<close> is
  fulfilled with a new integration, appended to the collection, whose name is the name
  of the original (the first integration with the identifier) followed by \<^verbatim>\<open> (Fork)\<close>, whose
  identifier differs from the original's, and which is not published.
\<close>

theorem fork_existing:
  assumes "ident \<in> set (map mcp_id db)" and "decimal (Date_now t) \<noteq> ident"
  shows "\<exists>original newMCP.
           getMCP ident db = Some original \<and> mcp_id original = ident \<and>
           forkMCP t t' ident db = (Inr newMCP, db @ [newMCP]) \<and>
           mcp_name newMCP = mcp_name original @ '' (Fork)'' \<and>
           mcp_id newMCP \<noteq> mcp_id original \<and>
           \<not> mcp_published newMCP"
proof -
  from getMCP_present [OF assms(1)] obtain original where
    orig: "getMCP ident db = Some original" "mcp_id original = ident" by auto
  let ?data = "(all_fields original)
                  \<lparr> p_id := Some (decimal (Date_now t)),
                    p_name := Some (mcp_name original @ '' (Fork)''),
                    p_published := Some False,
                    p_author := Some ''@currentuser'' \<rparr>"
  let ?new = "fst (createMCP t' ?data db)"
  have fork: "forkMCP t t' ident db = (Inr ?new, db @ [?new])"
    using orig(1) by (simp add: forkMCP_def createMCP_def Let_def)
  have "mcp_name ?new = mcp_name original @ '' (Fork)''" "mcp_id ?new = decimal (Date_now t)"
    "\<not> mcp_published ?new"
    by (simp_all add: createMCP_def Let_def all_fields_def spread_MCPIntegration_def override_def)
  with orig fork assms(2) show ?thesis by auto
qed

text \<open>The amended claim C4 on the first integration of the seed data.\<close>

theorem fork_existing_witness:
  "''1'' \<in> set (map mcp_id mockMCPs) \<and> decimal (Date_now example_instant) \<noteq> ''1'' \<and>
   (\<exists>original newMCP.
      getMCP ''1'' mockMCPs = Some original \<and> mcp_id original = ''1'' \<and>
      forkMCP example_instant later_instant ''1'' mockMCPs = (Inr newMCP, mockMCPs @ [newMCP]) \<and>
      mcp_name newMCP = mcp_name original @ '' (Fork)'' \<and>
      mcp_id newMCP \<noteq> mcp_id original \<and>
      \<not> mcp_published newMCP)"
proof -
  have h1: "''1'' \<in> set (map mcp_id mockMCPs)" by (simp add: mockMCPs_def)
  have h2: "decimal (Date_now example_instant) \<noteq> ''1''"
    by (simp add: example_instant_def decimal_example)
  from h1 h2 fork_existing [OF h1 h2] show ?thesis by blast
qed

text \<open>The fork of the first seed integration, spelled out.\<close>

lemma fork_stripe:
  "map_sum id (\<lambda>mcp. (mcp_id mcp, mcp_name mcp, mcp_author mcp, mcp_published mcp))
     (fst (forkMCP example_instant later_instant ''1'' mockMCPs))
     = Inr (''1700000000000'', ''Stripe Payment Gateway (Fork)'', ''@currentuser'', False)"
  by (simp add: createMCP_def forkMCP_def Let_def all_fields_def spread_MCPIntegration_def
      override_def override_opt_def or_default_def example_instant_def later_instant_def
      decimal_example mockMCPs_def getMCP_def)

subsection \<open>Update and delete of an unknown identifier\<close>

text \<open>
  Claim C5. For every identifier that no integration of the backing collection has and
  every partial record, \<^verbatim>\<open>updateMCP\<close> is rejected with the not-found error and the backing
  collection is as before.
\<close>

theorem update_missing_rejects:
  "ident \<notin> set (map mcp_id db) \<Longrightarrow> updateMCP t ident data db = (Inl MCP_not_found, db)"
  by (simp add: updateMCP_def findIndex_missing)

text \<open>Claim C5 on the seed data, for the identifier \<^verbatim>\<open>missing-id\<close>.\<close>

theorem update_missing_rejects_witness:
  "''missing-id'' \<notin> set (map mcp_id mockMCPs) \<and>
   updateMCP example_instant ''missing-id'' (named ''Renamed'') mockMCPs
     = (Inl MCP_not_found, mockMCPs)"
proof -
  have h: "''missing-id'' \<notin> set (map mcp_id mockMCPs)" by (simp add: mockMCPs_def)
  from h update_missing_rejects [OF h] show ?thesis by simp
qed

text \<open>
  Claim C6. For every identifier that no integration of the backing collection has,
  \<^verbatim>\<open>deleteMCP\<close> is fulfilled (no error is raised) and the backing collection is as before.
\<close>

theorem delete_missing_succeeds:
  "ident \<notin> set (map mcp_id db) \<Longrightarrow> deleteMCP ident db = (Inr (), db)"
  by (simp add: deleteMCP_def findIndex_missing)

text \<open>Claim C6 on the seed data, for the identifier \<^verbatim>\<open>missing-id\<close>.\<close>

theorem delete_missing_succeeds_witness:
  "''missing-id'' \<notin> set (map mcp_id mockMCPs) \<and>
   deleteMCP ''missing-id'' mockMCPs = (Inr (), mockMCPs)"
proof -
  have h: "''missing-id'' \<notin> set (map mcp_id mockMCPs)" by (simp add: mockMCPs_def)
  from h delete_missing_succeeds [OF h] show ?thesis by simp
qed

subsection \<open>The update timestamp\<close>

text \<open>
  Claim C10. For every identifier present in the backing collection and for every
  partial record, \<^verbatim>\<open>updateMCP\<close> is fulfilled with the merged integration, written back
  at the position found, and its \<^verbatim>\<open>updatedAt\<close> is the current time. An \<^verbatim>\<open>updatedAt\<close> in
  the caller's partial has no effect at all: the call does what it does on the same
  partial without that property.
\<close>

theorem update_refreshes_updatedAt:
  assumes "ident \<in> set (map mcp_id db)"
  shows "\<exists>index updated.
           findIndex (\<lambda>mcp. mcp_id mcp = ident) db = Some index \<and> index < length db \<and>
           updateMCP t ident data db = (Inr updated, db [index := updated]) \<and>
           mcp_updatedAt updated = toISOString t \<and>
           mcp_updatedAt (snd (updateMCP t ident data db) ! index) = toISOString t \<and>
           updateMCP t ident data db = updateMCP t ident (data \<lparr> p_updatedAt := None \<rparr>) db"
proof -
  from findIndex_present [OF assms] obtain i where
    i: "findIndex (\<lambda>mcp. mcp_id mcp = ident) db = Some i" "i < length db" by auto
  let ?updated = "(spread_MCPIntegration (db ! i) data) \<lparr> mcp_updatedAt := toISOString t \<rparr>"
  have same: "(spread_MCPIntegration (db ! i) (data \<lparr> p_updatedAt := None \<rparr>))
                \<lparr> mcp_updatedAt := toISOString t \<rparr> = ?updated"
    by (simp add: spread_MCPIntegration_def)
  have "updateMCP t ident data db = (Inr ?updated, db [i := ?updated])"
    using i by (simp add: updateMCP_def Let_def)
  moreover have "updateMCP t ident (data \<lparr> p_updatedAt := None \<rparr>) db
                   = (Inr ?updated, db [i := ?updated])"
    using i same by (simp add: updateMCP_def Let_def)
  ultimately show ?thesis using i by simp
qed

text \<open>
  Claim C10 on the second integration of the seed data, with a partial that carries an
  \<^verbatim>\<open>updatedAt\<close> of the last century.
\<close>

theorem update_refreshes_updatedAt_witness:
  "''2'' \<in> set (map mcp_id mockMCPs) \<and>
   (\<exists>index updated.
      findIndex (\<lambda>mcp. mcp_id mcp = ''2'') mockMCPs = Some index \<and> index < length mockMCPs \<and>
      updateMCP example_instant ''2'' backdated mockMCPs
        = (Inr updated, mockMCPs [index := updated]) \<and>
      mcp_updatedAt updated = toISOString example_instant \<and>
      mcp_updatedAt (snd (updateMCP example_instant ''2'' backdated mockMCPs) ! index)
        = toISOString example_instant \<and>
      updateMCP example_instant ''2'' backdated mockMCPs
        = updateMCP example_instant ''2'' (backdated \<lparr> p_updatedAt := None \<rparr>) mockMCPs)"
proof -
  have h: "''2'' \<in> set (map mcp_id mockMCPs)" by (simp add: mockMCPs_def)
  from h update_refreshes_updatedAt [OF h, of example_instant backdated] show ?thesis by blast
qed

text \<open>The same call, spelled out: the stored timestamp is the clock's, not the caller's.\<close>

lemma update_weather:
  "map_sum id mcp_updatedAt (fst (updateMCP example_instant ''2'' backdated mockMCPs))
     = Inr ''2023-11-14T22:13:20.000Z'' \<and>
   p_updatedAt backdated = Some ''1999-12-31T00:00:00.000Z''"
  by (simp add: updateMCP_def Let_def backdated_def no_fields_def spread_MCPIntegration_def
      override_def example_instant_def mockMCPs_def)

section \<open>The local persistence helper\<close>

subsection \<open>JSON values\<close>

text \<open>
  Serialising and parsing gives back a value that a text written by \<^verbatim>\<open>JSON.stringify\<close> can
  denote, and gives back the value itself when it is one.
\<close>

lemma to_json_fixed:
  "json_value v \<Longrightarrow> to_json v = v"
  "json_elements xs \<Longrightarrow> to_json_elements xs = xs"
  "json_properties ps \<Longrightarrow> to_json_properties ps = ps"
  by (induction v and xs and ps rule: to_json_to_json_elements_to_json_properties.induct) auto

lemma to_json_json:
  "v \<noteq> Undefined \<Longrightarrow> json_value (to_json v)"
  "json_elements (to_json_elements xs)"
  "json_properties (to_json_properties ps)"
  by (induction v and xs and ps rule: to_json_to_json_elements_to_json_properties.induct) auto

lemma json_value_defined: "json_value v \<Longrightarrow> v \<noteq> Undefined"
  by auto

lemma json_elements_append:
  "json_elements (xs @ ys) \<longleftrightarrow> json_elements xs \<and> json_elements ys"
  by (induction xs) auto

lemma json_elements_filter: "json_elements xs \<Longrightarrow> json_elements (filter P xs)"
  by (induction xs) auto

lemma JSON_parse_json: "JSON_parse data = Some v \<Longrightarrow> json_value v"
  by (cases data) (auto simp: to_json_json split: if_splits)

lemma getMCPList_json: "json_value (getMCPList rt ls)"
  by (auto simp: getMCPList_def JSON_parse_json split: option.splits)

lemma getMCPList_Array_json: "getMCPList rt ls = Array xs \<Longrightarrow> json_elements xs"
  using getMCPList_json [of rt ls] by simp

lemma getMCPList_empty: "getMCPList rt Map.empty = Array []"
  by (simp add: getMCPList_def)

lemma index_entries_empty: "index_entries rt Map.empty = []"
  by (simp add: index_entries_def getMCPList_def)

text \<open>An integration is a JSON value as an object exactly when \<open>json_MCPIntegration\<close> holds.\<close>

lemma json_properties_append:
  "json_properties (ps @ qs) \<longleftrightarrow> json_properties ps \<and> json_properties qs"
  by (induction ps) auto

lemma json_properties_js_opt:
  "json_properties (js_opt k f v) \<longleftrightarrow> json_optional (\<lambda>x. json_value (f x)) v"
  by (cases v) (simp_all add: js_opt_def)

lemma json_elements_map: "json_elements (map f xs) \<longleftrightarrow> list_all (\<lambda>x. json_value (f x)) xs"
  by (induction xs) auto

lemma json_value_Number: "json_value (Number n) \<longleftrightarrow> json_number n"
  by (simp add: json_number_def)

lemma json_headers: "json_value (js_of_headers hs)"
  unfolding js_of_headers_def by (induction hs) auto

lemma json_APIRoute: "json_value (js_of_APIRoute r)"
  by (simp add: js_of_APIRoute_def)

lemma json_MCPPrompt: "json_value (js_of_MCPPrompt p)"
  by (simp add: js_of_MCPPrompt_def)

lemma json_MCPResource: "json_value (js_of_MCPResource r)"
  by (simp add: js_of_MCPResource_def)

lemma json_value_ResponseMapping:
  "json_value (js_of_ResponseMapping rm) \<longleftrightarrow> json_ResponseMapping rm"
  by (simp add: js_of_ResponseMapping_def json_ResponseMapping_def json_properties_append
      json_properties_js_opt)

lemma json_value_APIConfig: "json_value (js_of_APIConfig api) \<longleftrightarrow> json_APIConfig api"
  by (simp add: js_of_APIConfig_def js_of_Authentication_def json_APIConfig_def
      json_properties_append json_properties_js_opt json_elements_map json_APIRoute json_headers
      json_value_Number list_all_iff del: json_value.simps(4))

lemma json_value_MCPTool: "json_value (js_of_MCPTool tool) \<longleftrightarrow> json_MCPTool tool"
  by (simp add: js_of_MCPTool_def json_MCPTool_def json_properties_append
      json_properties_js_opt json_value_ResponseMapping)

lemma json_value_MCPIntegration:
  "json_value (js_of_MCPIntegration mcp) \<longleftrightarrow> json_MCPIntegration mcp"
  by (simp add: js_of_MCPIntegration_def js_of_MCPConfiguration_def json_MCPIntegration_def
      json_properties_append json_properties_js_opt json_elements_map json_value_Number
      json_value_APIConfig json_value_MCPTool json_MCPPrompt json_MCPResource list_all_iff
      del: json_value.simps(4))

subsection \<open>The two kinds of key\<close>

text \<open>
  The key of a record is the prefix \<^verbatim>\<open>mcp_\<close> followed by the identifier; the key of the index
  is \<^verbatim>\<open>mcp_list\<close>. The two coincide for the identifier \<^verbatim>\<open>list\<close> and for no other.
\<close>

lemma key_is_list:
  "MCP_STORAGE_PREFIX @ ident = MCP_LIST_KEY \<longleftrightarrow> ident = ''list''"
  "MCP_LIST_KEY = MCP_STORAGE_PREFIX @ ident \<longleftrightarrow> ident = ''list''"
  by (auto simp: MCP_STORAGE_PREFIX_def MCP_LIST_KEY_def)

lemma js_of_MCPIntegration_Object: "\<exists>ps. js_of_MCPIntegration mcp = Object ps"
  by (simp add: js_of_MCPIntegration_def)

lemma getMCPList_after_record:
  assumes "window_defined rt"
  shows "getMCPList rt
           (ls (MCP_STORAGE_PREFIX @ mcp_id mcp \<mapsto> JSON_stringify (js_of_MCPIntegration mcp)))
         = (if mcp_id mcp = ''list'' then to_json (js_of_MCPIntegration mcp)
            else getMCPList rt ls)"
proof -
  obtain ps where "js_of_MCPIntegration mcp = Object ps"
    using js_of_MCPIntegration_Object by blast
  then show ?thesis using assms
    by (auto simp: getMCPList_def key_is_list JSON_stringify_def)
qed

lemma getMCPList_after_index:
  assumes "window_defined rt" and "json_elements xs"
  shows "getMCPList rt (ls (MCP_LIST_KEY \<mapsto> JSON_stringify (Array xs))) = Array xs"
  using assms by (simp add: getMCPList_def JSON_stringify_def to_json_fixed)

text \<open>
  \<^verbatim>\<open>saveMCPToStorage\<close> in a browser, by cases: an integration with the identifier \<^verbatim>\<open>list\<close>
  overwrites the index with its own record, and the index is not touched again.
\<close>

lemma saveMCPToStorage_cases:
  assumes "window_defined rt"
  shows "saveMCPToStorage rt mcp ls =
     (let ls1 = ls (MCP_STORAGE_PREFIX @ mcp_id mcp \<mapsto> JSON_stringify (js_of_MCPIntegration mcp))
      in if mcp_id mcp = ''list'' then ls1
         else case getMCPList rt ls of
             Array list \<Rightarrow>
               if String (mcp_id mcp) \<in> set list then ls1
               else ls1 (MCP_LIST_KEY \<mapsto> JSON_stringify (Array (list @ [String (mcp_id mcp)])))
           | _ \<Rightarrow> ls1)"
proof -
  obtain ps where "to_json (js_of_MCPIntegration mcp) = Object ps"
    using js_of_MCPIntegration_Object [of mcp] by auto
  then show ?thesis using assms
    by (simp add: saveMCPToStorage_def Let_def getMCPList_after_record)
qed

lemma saveMCPToStorage_server: "\<not> window_defined rt \<Longrightarrow> saveMCPToStorage rt mcp ls = ls"
  by (simp add: saveMCPToStorage_def)

subsection \<open>Save, then load\<close>

lemmas js_of_defs =
  js_of_MCPIntegration_def js_of_MCPConfiguration_def js_of_APIConfig_def js_of_MCPTool_def
  js_of_MCPPrompt_def js_of_MCPResource_def js_of_Authentication_def js_of_APIRoute_def
  js_of_ResponseMapping_def js_of_headers_def js_opt_def

lemma untitled_id: "mcp_id untitled = ''1700000000000''"
  by (simp add: untitled_def createNewMCP_def example_instant_def decimal_example)

lemma untitled_js:
  "js_of_MCPIntegration untitled =
     Object [(''id'', String ''1700000000000''), (''name'', String ''Untitled MCP''),
             (''description'', String []), (''version'', String ''1.0.0''),
             (''format'', String ''gpt-4''), (''author'', String ''Anonymous''),
             (''createdAt'', String ''2023-11-14T22:13:20.000Z''),
             (''updatedAt'', String ''2023-11-14T22:13:20.000Z''),
             (''published'', Bool False), (''apis'', Array []), (''tools'', Array []),
             (''prompts'', Array []), (''resources'', Array []),
             (''configuration'',
                Object [(''globalPrompt'', String ''You are a helpful AI assistant.''),
                        (''model'', String ''gpt-3.5-turbo''),
                        (''temperature'', Number (Finite (7 / 10))),
                        (''maxTokens'', Number (Finite 2000))])]"
  by (simp add: untitled_def createNewMCP_def example_instant_def decimal_example js_of_defs)

text \<open>
  Claim C2, as the specification states it, fails, because the record is written by
  \<^verbatim>\<open>JSON.stringify\<close> and read by \<^verbatim>\<open>JSON.parse\<close>. Four integrations that are not loaded as
  they were saved: one whose temperature is \<^verbatim>\<open>NaN\<close> (it is loaded as \<^verbatim>\<open>null\<close>), one whose
  temperature is \<open>-0\<close> (loaded as \<open>0\<close>), one that has the \<^verbatim>\<open>emoji\<close> property with the value
  \<^verbatim>\<open>undefined\<close> (loaded without the property), and one with a tool whose input schema has
  \<^verbatim>\<open>undefined\<close> in an array (loaded with \<^verbatim>\<open>null\<close> in its place).
\<close>

theorem json_round_trip_losses:
  "loadMCPFromStorage browser (mcp_id overheated) (saveMCPToStorage browser overheated Map.empty)
     \<noteq> js_of_MCPIntegration overheated \<and>
   loadMCPFromStorage browser (mcp_id frozen) (saveMCPToStorage browser frozen Map.empty)
     \<noteq> js_of_MCPIntegration frozen \<and>
   loadMCPFromStorage browser (mcp_id faceless) (saveMCPToStorage browser faceless Map.empty)
     \<noteq> js_of_MCPIntegration faceless \<and>
   loadMCPFromStorage browser (mcp_id sparse) (saveMCPToStorage browser sparse Map.empty)
     \<noteq> js_of_MCPIntegration sparse"
  by (simp add: overheated_def frozen_def faceless_def sparse_def refund_tool_def untitled_def
      createNewMCP_def example_instant_def decimal_example js_of_defs browser_def
      saveMCPToStorage_def loadMCPFromStorage_def getMCPList_def JSON_stringify_def
      MCP_STORAGE_PREFIX_def MCP_LIST_KEY_def Let_def)

text \<open>
  Claim C2, amended. In a browser, for every integration in which every number is finite
  and not \<open>-0\<close>, no optional property is present with the value \<^verbatim>\<open>undefined\<close>, and the
  free-form fields (the \<^verbatim>\<open>config\<close> of an authentication, the \<^verbatim>\<open>inputSchema\<close> of a tool) are
  plain data, made of \<^verbatim>\<open>null\<close>, booleans, strings, finite numbers other than \<open>-0\<close>, arrays
  and plain objects only, and for every content of the storage, \<^verbatim>\<open>saveMCPToStorage\<close> followed by \<^verbatim>\<open>loadMCPFromStorage\<close> with
  the integration's identifier returns the integration, property for property. This
  holds for the identifier \<^verbatim>\<open>list\<close> as well.
\<close>

theorem save_then_load:
  assumes "window_defined rt" and "json_MCPIntegration mcp"
  shows "loadMCPFromStorage rt (mcp_id mcp) (saveMCPToStorage rt mcp ls)
           = js_of_MCPIntegration mcp"
proof -
  let ?key = "MCP_STORAGE_PREFIX @ mcp_id mcp"
  from assms(2) have json: "json_value (js_of_MCPIntegration mcp)"
    by (simp add: json_value_MCPIntegration)
  have "saveMCPToStorage rt mcp ls ?key = Some (JSON_stringify (js_of_MCPIntegration mcp))"
    using assms(1)
    by (auto simp: saveMCPToStorage_cases Let_def key_is_list split: jsvalue.splits)
  then show ?thesis using assms(1) json
    by (simp add: loadMCPFromStorage_def JSON_stringify_def to_json_fixed json_value_defined)
qed

text \<open>
  The amended claim C2 on the integration under construction, which has APIs with an
  authentication \<^verbatim>\<open>config\<close>, headers and a timeout, tools with a nested input schema and a
  response mapping, prompts, a resource, a star rating and an emoji, saved into a storage
  that holds another integration already.
\<close>

theorem save_then_load_witness:
  "window_defined browser \<and> json_MCPIntegration payments \<and>
   loadMCPFromStorage browser (mcp_id payments) (saveMCPToStorage browser payments stored_once)
     = js_of_MCPIntegration payments"
proof -
  have w: "window_defined browser" by (simp add: browser_def)
  have j: "json_MCPIntegration payments"
    by (simp add: json_MCPIntegration_def json_APIConfig_def json_MCPTool_def
        json_ResponseMapping_def json_number_def payments_def untitled_def createNewMCP_def
        stripe_api_def weather_api_def charge_tool_def refund_tool_def)
  from w j save_then_load [OF w j] show ?thesis by simp
qed

text \<open>
  The four integrations above are not of this kind, and the saved integration is loaded
  with all its parts.
\<close>

lemma losses_not_json:
  "\<not> json_MCPIntegration overheated" "\<not> json_MCPIntegration frozen"
  "\<not> json_MCPIntegration faceless" "\<not> json_MCPIntegration sparse"
  by (simp_all add: json_MCPIntegration_def json_MCPTool_def json_number_def overheated_def
      frozen_def faceless_def sparse_def refund_tool_def untitled_def createNewMCP_def)

lemma payments_js:
  "js_of_MCPIntegration payments =
     Object [(''id'', String ''1700000000002''), (''name'', String ''Payments''),
             (''description'', String []), (''version'', String ''1.0.0''),
             (''format'', String ''gpt-4''), (''author'', String ''Anonymous''),
             (''createdAt'', String ''2023-11-14T22:13:20.000Z''),
             (''updatedAt'', String ''2023-11-14T22:13:20.000Z''),
             (''published'', Bool False),
             (''apis'', Array [js_of_APIConfig stripe_api, js_of_APIConfig weather_api]),
             (''tools'', Array [js_of_MCPTool charge_tool, js_of_MCPTool refund_tool]),
             (''prompts'', Array [js_of_MCPPrompt system_prompt, js_of_MCPPrompt context_prompt]),
             (''resources'', Array [js_of_MCPResource docs_resource]),
             (''configuration'',
                Object [(''globalPrompt'', String ''You are a helpful AI assistant.''),
                        (''model'', String ''gpt-3.5-turbo''),
                        (''temperature'', Number (Finite (7 / 10))),
                        (''maxTokens'', Number (Finite 2000))]),
             (''stars'', Number (Finite (9 / 2))), (''emoji'', String ''$'')]"
  by (simp add: payments_def untitled_def createNewMCP_def example_instant_def
      js_of_MCPIntegration_def js_of_MCPConfiguration_def js_opt_def)

subsection \<open>The index list under saves\<close>

lemma index_entries_save:
  assumes "window_defined rt"
  shows "index_entries rt (saveMCPToStorage rt mcp ls) =
     (if mcp_id mcp = ''list'' then []
      else if String (mcp_id mcp) \<in> set (index_entries rt ls) then index_entries rt ls
      else case getMCPList rt ls of
             Array list \<Rightarrow> list @ [String (mcp_id mcp)]
           | _ \<Rightarrow> [])"
proof (cases "mcp_id mcp = ''list''")
  case True
  obtain ps where "to_json (js_of_MCPIntegration mcp) = Object ps"
    using js_of_MCPIntegration_Object [of mcp] by auto
  with True getMCPList_after_record [OF assms, of ls mcp]
  have "getMCPList rt (saveMCPToStorage rt mcp ls) = Object ps"
    using assms by (simp add: saveMCPToStorage_cases)
  with True show ?thesis by (simp add: index_entries_def)
next
  case False
  let ?ls1 = "ls (MCP_STORAGE_PREFIX @ mcp_id mcp \<mapsto> JSON_stringify (js_of_MCPIntegration mcp))"
  have same: "getMCPList rt ?ls1 = getMCPList rt ls"
    using assms False by (simp add: getMCPList_after_record)
  show ?thesis
  proof (cases "getMCPList rt ls")
    case (Array list)
    then have j: "json_elements (list @ [String (mcp_id mcp)])"
      using getMCPList_Array_json [OF Array] by (simp add: json_elements_append)
    from Array False assms same getMCPList_after_index [OF assms j, of ?ls1] show ?thesis
      by (simp add: saveMCPToStorage_cases index_entries_def Let_def)
  qed (use False assms same in \<open>simp_all add: saveMCPToStorage_cases index_entries_def Let_def\<close>)
qed

lemma save_keeps_distinct:
  assumes "distinct (index_entries rt ls)"
  shows "distinct (index_entries rt (saveMCPToStorage rt mcp ls))"
proof (cases "window_defined rt")
  case True
  show ?thesis
  proof (cases "getMCPList rt ls")
    case (Array list)
    with assms have "distinct list" by (simp add: index_entries_def)
    with Array True show ?thesis by (simp add: index_entries_save) (simp add: index_entries_def)
  qed (use True assms in \<open>simp_all add: index_entries_save\<close>)
next
  case False
  with assms show ?thesis by (simp add: saveMCPToStorage_server)
qed

lemma save_all_keeps_distinct:
  "distinct (index_entries rt ls) \<Longrightarrow> distinct (index_entries rt (save_all rt mcps ls))"
  unfolding save_all_def
  by (induction mcps arbitrary: ls) (simp_all add: save_keeps_distinct)

text \<open>Saving the same integration a second time changes nothing at all.\<close>

lemma save_twice:
  "saveMCPToStorage rt mcp (saveMCPToStorage rt mcp ls) = saveMCPToStorage rt mcp ls"
proof (cases "window_defined rt")
  case True
  let ?key = "MCP_STORAGE_PREFIX @ mcp_id mcp"
  let ?ls1 = "ls (?key \<mapsto> JSON_stringify (js_of_MCPIntegration mcp))"
  show ?thesis
  proof (cases "mcp_id mcp = ''list''")
    case True
    with \<open>window_defined rt\<close> show ?thesis by (simp add: saveMCPToStorage_cases)
  next
    case False
    then have neq: "?key \<noteq> MCP_LIST_KEY" by (simp add: key_is_list)
    show ?thesis
    proof (cases "getMCPList rt ls")
      case (Array list)
      show ?thesis
      proof (cases "String (mcp_id mcp) \<in> set list")
        case in_list: True
        have "saveMCPToStorage rt mcp ls = ?ls1"
          using True False Array in_list by (simp add: saveMCPToStorage_cases)
        moreover have "getMCPList rt ?ls1 = Array list"
          using True False Array by (simp add: getMCPList_after_record)
        ultimately show ?thesis
          using True False in_list by (simp add: saveMCPToStorage_cases)
      next
        case not_in_list: False
        let ?ls2 = "?ls1 (MCP_LIST_KEY \<mapsto> JSON_stringify (Array (list @ [String (mcp_id mcp)])))"
        have j: "json_elements (list @ [String (mcp_id mcp)])"
          using getMCPList_Array_json [OF Array] by (simp add: json_elements_append)
        have s1: "saveMCPToStorage rt mcp ls = ?ls2"
          using True False Array not_in_list by (simp add: saveMCPToStorage_cases)
        have idx: "getMCPList rt ?ls2 = Array (list @ [String (mcp_id mcp)])"
          using getMCPList_after_index [OF True j] by simp
        have rewrite: "?ls2 (?key \<mapsto> JSON_stringify (js_of_MCPIntegration mcp)) = ?ls2"
          using neq by (auto simp: fun_eq_iff)
        show ?thesis
          using True False idx rewrite unfolding s1
          by (simp add: saveMCPToStorage_cases [of rt mcp ?ls2] Let_def)
      qed
    next
      case Undefined
      with True False show ?thesis
        by (simp add: saveMCPToStorage_cases getMCPList_after_record Let_def)
    next
      case Null
      with True False show ?thesis
        by (simp add: saveMCPToStorage_cases getMCPList_after_record Let_def)
    next
      case (Bool b)
      with True False show ?thesis
        by (simp add: saveMCPToStorage_cases getMCPList_after_record Let_def)
    next
      case (Number n)
      with True False show ?thesis
        by (simp add: saveMCPToStorage_cases getMCPList_after_record Let_def)
    next
      case (String s)
      with True False show ?thesis
        by (simp add: saveMCPToStorage_cases getMCPList_after_record Let_def)
    next
      case (Object ps)
      with True False show ?thesis
        by (simp add: saveMCPToStorage_cases getMCPList_after_record Let_def)
    qed
  qed
next
  case False
  then show ?thesis by (simp add: saveMCPToStorage_server)
qed

text \<open>
  Claim C9. \<^verbatim>\<open>saveMCPToStorage\<close> is idempotent: a second save of the same integration
  leaves the storage, and so the index list, as the first one left it. Saving an
  integration whose identifier is in the index list does not add an entry for that
  identifier. And when the index list holds no entry twice, it holds no entry twice after
  any sequence of saves; the empty storage of a fresh browser is such a start.
\<close>

theorem save_index_once:
  "saveMCPToStorage rt mcp (saveMCPToStorage rt mcp ls) = saveMCPToStorage rt mcp ls \<and>
   (String (mcp_id mcp) \<in> set (index_entries rt ls) \<longrightarrow>
      count_list (index_entries rt (saveMCPToStorage rt mcp ls)) (String (mcp_id mcp))
        \<le> count_list (index_entries rt ls) (String (mcp_id mcp))) \<and>
   (distinct (index_entries rt ls) \<longrightarrow> distinct (index_entries rt (save_all rt mcps ls))) \<and>
   distinct (index_entries rt (save_all rt mcps Map.empty))"
proof (intro conjI impI)
  show "saveMCPToStorage rt mcp (saveMCPToStorage rt mcp ls) = saveMCPToStorage rt mcp ls"
    by (rule save_twice)
next
  assume "String (mcp_id mcp) \<in> set (index_entries rt ls)"
  then show "count_list (index_entries rt (saveMCPToStorage rt mcp ls)) (String (mcp_id mcp))
        \<le> count_list (index_entries rt ls) (String (mcp_id mcp))"
    by (cases "window_defined rt") (simp_all add: index_entries_save saveMCPToStorage_server)
next
  assume "distinct (index_entries rt ls)"
  then show "distinct (index_entries rt (save_all rt mcps ls))"
    by (rule save_all_keeps_distinct)
next
  show "distinct (index_entries rt (save_all rt mcps Map.empty))"
    by (rule save_all_keeps_distinct) (simp add: index_entries_empty)
qed

lemma stored_once_index: "index_entries browser stored_once = [String ''1700000000000'']"
proof -
  have w: "window_defined browser" by (simp add: browser_def)
  show ?thesis
    unfolding stored_once_def
    by (simp add: index_entries_save [OF w] untitled_id index_entries_empty getMCPList_empty)
qed

text \<open>
  Claim C9 on a storage that holds one integration: saving it again, and a sequence of
  three saves of two integrations.
\<close>

theorem save_index_once_witness:
  "saveMCPToStorage browser untitled (saveMCPToStorage browser untitled stored_once)
     = saveMCPToStorage browser untitled stored_once \<and>
   String (mcp_id untitled) \<in> set (index_entries browser stored_once) \<and>
   count_list (index_entries browser (saveMCPToStorage browser untitled stored_once))
       (String (mcp_id untitled))
     \<le> count_list (index_entries browser stored_once) (String (mcp_id untitled)) \<and>
   distinct (index_entries browser stored_once) \<and>
   distinct (index_entries browser (save_all browser [untitled, second, untitled] stored_once))"
proof -
  have h1: "String (mcp_id untitled) \<in> set (index_entries browser stored_once)"
    by (simp add: stored_once_index untitled_id)
  have h2: "distinct (index_entries browser stored_once)"
    by (simp add: stored_once_index)
  from save_index_once [of browser untitled stored_once "[untitled, second, untitled]"] h1 h2
  show ?thesis by blast
qed

text \<open>The index after these three saves on an empty storage.\<close>

lemma saves_example:
  "index_entries browser (save_all browser [untitled, second, untitled] Map.empty)
     = [String ''1700000000000'', String ''1700000000001'']"
proof -
  have w: "window_defined browser" by (simp add: browser_def)
  have ids: "mcp_id second = ''1700000000001''" by (simp add: second_def)
  have l1: "getMCPList browser (saveMCPToStorage browser untitled Map.empty)
              = Array [String ''1700000000000'']"
    by (simp add: saveMCPToStorage_cases [OF w] untitled_id getMCPList_empty
        getMCPList_after_index [OF w] getMCPList_after_record [OF w] Let_def)
  show ?thesis
    by (simp add: save_all_def index_entries_save [OF w] untitled_id ids index_entries_empty
        getMCPList_empty l1)
qed

subsection \<open>Delete\<close>

text \<open>
  Claim C7 holds for every identifier but one. \<^verbatim>\<open>deleteMCPFromStorage\<close> with the identifier
  \<^verbatim>\<open>list\<close> removes the key \<^verbatim>\<open>mcp_list\<close>, which is the record's key and the index's key at
  once, and then writes the (now empty) index back under it. For an integration saved
  with that identifier, \<^verbatim>\<open>loadMCPFromStorage\<close> returns the integration before the delete;
  after it, the key is still there and \<^verbatim>\<open>loadMCPFromStorage\<close> returns the empty array
  instead of \<^verbatim>\<open>null\<close>.
\<close>

theorem delete_list_identifier:
  "loadMCPFromStorage browser ''list'' (saveMCPToStorage browser list_named Map.empty)
     = js_of_MCPIntegration list_named \<and>
   loadMCPFromStorage browser ''list''
     (deleteMCPFromStorage browser ''list'' (saveMCPToStorage browser list_named Map.empty))
     = Array [] \<and>
   deleteMCPFromStorage browser ''list'' (saveMCPToStorage browser list_named Map.empty)
     (MCP_STORAGE_PREFIX @ ''list'') = Some (JSON_stringify (Array []))"
  by (simp add: list_named_def untitled_def createNewMCP_def example_instant_def decimal_example
      js_of_defs browser_def saveMCPToStorage_def deleteMCPFromStorage_def loadMCPFromStorage_def
      getMCPList_def JSON_stringify_def MCP_STORAGE_PREFIX_def MCP_LIST_KEY_def Let_def)

text \<open>
  For every other identifier the delete does what is claimed, whatever the storage holds:
  the record's key is gone, the index list has no entry for the identifier, loading the
  identifier returns \<^verbatim>\<open>null\<close>, and \<^verbatim>\<open>getAllMCPs\<close> lists what the remaining entries load, none
  of them from the key of the identifier.
\<close>

lemma deleteMCPFromStorage_cases:
  assumes "window_defined rt" and "ident \<noteq> ''list''"
  shows "deleteMCPFromStorage rt ident ls =
     (let ls1 = ls (MCP_STORAGE_PREFIX @ ident := None)
      in case getMCPList rt ls of
           Array list \<Rightarrow>
             ls1 (MCP_LIST_KEY \<mapsto>
                    JSON_stringify (Array (filter (\<lambda>mcpId. mcpId \<noteq> String ident) list)))
         | _ \<Rightarrow> ls1)"
proof -
  have "getMCPList rt (ls (MCP_STORAGE_PREFIX @ ident := None)) = getMCPList rt ls"
    using assms by (simp add: getMCPList_def key_is_list)
  then show ?thesis using assms by (simp add: deleteMCPFromStorage_def Let_def)
qed

lemma delete_removes_record:
  assumes "window_defined rt" and "ident \<noteq> ''list''"
  shows "deleteMCPFromStorage rt ident ls (MCP_STORAGE_PREFIX @ ident) = None"
  using assms
  by (cases "getMCPList rt ls") (simp_all add: deleteMCPFromStorage_cases Let_def key_is_list)

lemma delete_index_entries:
  assumes "window_defined rt" and "ident \<noteq> ''list''"
  shows "index_entries rt (deleteMCPFromStorage rt ident ls)
           = filter (\<lambda>mcpId. mcpId \<noteq> String ident) (index_entries rt ls)"
proof -
  have same: "getMCPList rt (ls (MCP_STORAGE_PREFIX @ ident := None)) = getMCPList rt ls"
    using assms by (simp add: getMCPList_def key_is_list)
  show ?thesis
  proof (cases "getMCPList rt ls")
    case (Array list)
    have j: "json_elements (filter (\<lambda>mcpId. mcpId \<noteq> String ident) list)"
      using getMCPList_Array_json [OF Array] by (rule json_elements_filter)
    from Array assms getMCPList_after_index [OF assms(1) j] show ?thesis
      by (simp add: deleteMCPFromStorage_cases index_entries_def Let_def)
  qed (use assms same in \<open>simp_all add: deleteMCPFromStorage_cases index_entries_def\<close>)
qed

lemma getAllMCPs_entries:
  "getAllMCPs rt ls =
     (if \<not> window_defined rt then []
      else filter (\<lambda>mcp. mcp \<noteq> Null)
             (map (\<lambda>entry. loadMCPFromStorage rt (ToString (Number_toString rt) entry) ls)
                (index_entries rt ls)))"
  by (cases "getMCPList rt ls") (simp_all add: getAllMCPs_def index_entries_def)

lemma delete_other_identifier:
  assumes "window_defined rt" and "ident \<noteq> ''list''"
  shows "deleteMCPFromStorage rt ident ls (MCP_STORAGE_PREFIX @ ident) = None"
    and "String ident \<notin> set (index_entries rt (deleteMCPFromStorage rt ident ls))"
    and "loadMCPFromStorage rt ident (deleteMCPFromStorage rt ident ls) = Null"
    and "getAllMCPs rt (deleteMCPFromStorage rt ident ls)
           = filter (\<lambda>mcp. mcp \<noteq> Null)
               (map (\<lambda>entry. loadMCPFromStorage rt (ToString (Number_toString rt) entry)
                               (deleteMCPFromStorage rt ident ls))
                  (filter (\<lambda>entry. ToString (Number_toString rt) entry \<noteq> ident)
                     (index_entries rt ls)))"
proof -
  let ?ls' = "deleteMCPFromStorage rt ident ls"
  let ?key = "\<lambda>entry. ToString (Number_toString rt) entry"
  show gone: "?ls' (MCP_STORAGE_PREFIX @ ident) = None"
    by (rule delete_removes_record [OF assms])
  show "String ident \<notin> set (index_entries rt ?ls')"
    by (simp add: delete_index_entries [OF assms])
  show null: "loadMCPFromStorage rt ident ?ls' = Null"
    using gone by (simp add: loadMCPFromStorage_def)
  have "filter (\<lambda>mcp. mcp \<noteq> Null)
          (map (\<lambda>entry. loadMCPFromStorage rt (?key entry) ?ls')
             (filter (\<lambda>mcpId. mcpId \<noteq> String ident) es))
        = filter (\<lambda>mcp. mcp \<noteq> Null)
            (map (\<lambda>entry. loadMCPFromStorage rt (?key entry) ?ls')
               (filter (\<lambda>entry. ?key entry \<noteq> ident) es))" for es
    using null by (induction es) auto
  then show "getAllMCPs rt ?ls'
           = filter (\<lambda>mcp. mcp \<noteq> Null)
               (map (\<lambda>entry. loadMCPFromStorage rt (?key entry) ?ls')
                  (filter (\<lambda>entry. ?key entry \<noteq> ident) (index_entries rt ls)))"
    using assms(1) by (simp add: getAllMCPs_entries delete_index_entries [OF assms])
qed

text \<open>An example: of two saved integrations, the deleted one is no longer listed.\<close>

lemma delete_example:
  "getAllMCPs browser
     (deleteMCPFromStorage browser ''1700000000000''
        (save_all browser [untitled, second] Map.empty))
     = [js_of_MCPIntegration second] \<and>
   loadMCPFromStorage browser ''1700000000000''
     (deleteMCPFromStorage browser ''1700000000000''
        (save_all browser [untitled, second] Map.empty))
     = Null"
  by (simp add: save_all_def second_def untitled_def createNewMCP_def example_instant_def
      decimal_example js_of_defs browser_def saveMCPToStorage_def deleteMCPFromStorage_def
      loadMCPFromStorage_def getAllMCPs_def getMCPList_def JSON_stringify_def
      MCP_STORAGE_PREFIX_def MCP_LIST_KEY_def Let_def)


end
